theory Spec2Isabelle
  imports Complex_Main "HOL-Library.Log_Nat"
begin

section \<open>JavaScript numbers\<close>

text \<open>
  A \<open>number\<close> is an IEEE-754 double: a finite value, one of the two infinities, or
  \<open>NaN\<close>. A finite value is kept as the rational it denotes. The two zeros are one value
  here: they compare equal and differ only in the sign of a quotient by zero, and the
  source never divides by a value that can be zero.
\<close>

datatype number = Finite rat | PosInfinity | NegInfinity | NaN

text \<open>
  The exponent \<open>e\<close> of a rational \<open>q \<noteq> 0\<close>, with \<open>2 ^ e \<le> |q| < 2 ^ (e + 1)\<close>, from the
  bit lengths of its numerator and denominator.
\<close>

definition expo :: "rat \<Rightarrow> int" where
  "expo q =
    (let (a, b) = quotient_of \<bar>q\<bar>;
         k = bitlen a - bitlen b
     in if 2 powi k \<le> \<bar>q\<bar> then k else k - 1)"

text \<open>
  The spacing of the doubles around \<open>q\<close>: 53 significant bits, and the fixed spacing
  \<open>2 ^ -1074\<close> of the subnormal range below \<open>2 ^ -1022\<close>.
\<close>

definition ulp :: "rat \<Rightarrow> rat" where
  "ulp q = 2 powi (max (expo q) (- 1022) - 52)"

definition round_half_even :: "rat \<Rightarrow> int" where
  "round_half_even x =
    (let f = \<lfloor>x\<rfloor>; d = x - of_int f
     in if d < 1 / 2 then f
        else if 1 / 2 < d then f + 1
        else if even f then f else f + 1)"

text \<open>
  Rounding to the nearest double, ties to the even significand; a result of magnitude
  \<open>2 ^ 1024\<close> or more is an infinity. Every arithmetic operation of the source is the
  exact operation followed by this rounding, and a decimal literal \<open>c\<close> of the source is
  the double \<open>to_double c\<close>.
\<close>

definition to_double :: "rat \<Rightarrow> number" where
  "to_double q =
    (if q = 0 then Finite 0
     else let r = of_int (round_half_even (q / ulp q)) * ulp q
          in if 2 ^ 1024 \<le> \<bar>r\<bar> then (if 0 < q then PosInfinity else NegInfinity)
             else Finite r)"

text \<open>\<open>Number.MAX_VALUE\<close>, the largest finite double.\<close>

definition MAX_VALUE :: rat where
  "MAX_VALUE = (2 ^ 53 - 1) * 2 ^ 971"

text \<open>The finite doubles: the values that rounding leaves as they are.\<close>

definition finite_double :: "number \<Rightarrow> bool" where
  "finite_double n = (case n of Finite x \<Rightarrow> to_double x = Finite x | _ \<Rightarrow> False)"

text \<open>
  The operators of the source on numbers: unary minus, \<open>+\<close>, \<open>-\<close>, \<open>*\<close>, \<open>/\<close>, \<open><\<close>, \<open>>\<close> and
  \<open>Math.min\<close>. \<open>NaN\<close> is contagious in arithmetic and makes every comparison false.
\<close>

fun num_neg :: "number \<Rightarrow> number" where
  "num_neg (Finite a) = Finite (- a)"
| "num_neg PosInfinity = NegInfinity"
| "num_neg NegInfinity = PosInfinity"
| "num_neg NaN = NaN"

fun num_sign :: "number \<Rightarrow> int" where
  "num_sign (Finite a) = (if 0 < a then 1 else if a < 0 then - 1 else 0)"
| "num_sign PosInfinity = 1"
| "num_sign NegInfinity = - 1"
| "num_sign NaN = 0"

fun num_add :: "number \<Rightarrow> number \<Rightarrow> number" where
  "num_add (Finite a) (Finite b) = to_double (a + b)"
| "num_add NaN _ = NaN"
| "num_add _ NaN = NaN"
| "num_add PosInfinity NegInfinity = NaN"
| "num_add NegInfinity PosInfinity = NaN"
| "num_add PosInfinity _ = PosInfinity"
| "num_add _ PosInfinity = PosInfinity"
| "num_add NegInfinity _ = NegInfinity"
| "num_add _ NegInfinity = NegInfinity"

definition num_sub :: "number \<Rightarrow> number \<Rightarrow> number" where
  "num_sub x y = num_add x (num_neg y)"

text \<open>
  A product with an infinite factor: \<open>NaN\<close> when the other factor is zero, and the
  infinity of the product of the signs otherwise.
\<close>

fun num_mul :: "number \<Rightarrow> number \<Rightarrow> number" where
  "num_mul (Finite a) (Finite b) = to_double (a * b)"
| "num_mul NaN _ = NaN"
| "num_mul _ NaN = NaN"
| "num_mul x y =
    (if num_sign x * num_sign y = 0 then NaN
     else if 0 < num_sign x * num_sign y then PosInfinity
     else NegInfinity)"

fun num_div :: "number \<Rightarrow> number \<Rightarrow> number" where
  "num_div (Finite a) (Finite b) =
    (if b = 0 then (if a = 0 then NaN else if 0 < a then PosInfinity else NegInfinity)
     else to_double (a / b))"
| "num_div NaN _ = NaN"
| "num_div _ NaN = NaN"
| "num_div (Finite a) _ = Finite 0"
| "num_div x (Finite b) = (if 0 \<le> b then x else num_neg x)"
| "num_div _ _ = NaN"

fun num_lt :: "number \<Rightarrow> number \<Rightarrow> bool" where
  "num_lt (Finite a) (Finite b) = (a < b)"
| "num_lt NaN _ = False"
| "num_lt _ NaN = False"
| "num_lt _ NegInfinity = False"
| "num_lt PosInfinity _ = False"
| "num_lt _ _ = True"

definition num_gt :: "number \<Rightarrow> number \<Rightarrow> bool" where
  "num_gt x y = num_lt y x"

definition Math_min :: "number \<Rightarrow> number \<Rightarrow> number" where
  "Math_min x y =
    (if x = NaN \<or> y = NaN then NaN
     else if num_lt y x then y else x)"

text \<open>
  The remainder operator \<open>x % y\<close> truncates the quotient toward zero, so the result
  carries the sign of the dividend; it is exact. The source only uses it with divisor
  \<open>1\<close>.
\<close>

definition js_trunc :: "rat \<Rightarrow> int" where
  "js_trunc x = (if 0 \<le> x then \<lfloor>x\<rfloor> else \<lceil>x\<rceil>)"

fun js_rem :: "number \<Rightarrow> number \<Rightarrow> number" where
  "js_rem (Finite a) (Finite b) =
    (if b = 0 then NaN else Finite (a - b * of_int (js_trunc (a / b))))"
| "js_rem NaN _ = NaN"
| "js_rem _ NaN = NaN"
| "js_rem (Finite a) _ = Finite a"
| "js_rem _ _ = NaN"

fun Math_floor :: "number \<Rightarrow> number" where
  "Math_floor (Finite a) = Finite (of_int \<lfloor>a\<rfloor>)"
| "Math_floor x = x"

fun Math_ceil :: "number \<Rightarrow> number" where
  "Math_ceil (Finite a) = Finite (of_int \<lceil>a\<rceil>)"
| "Math_ceil x = x"

section \<open>Data model (types/index.ts)\<close>

record EnvironmentalData =
  indoorTemp :: number
  outdoorTemp :: number
  humidity :: number
  occupancy :: number
  weatherCondition :: string
  timeOfDay :: string
  sunlightIntensity :: number
  roomSize :: number
  windowOpen :: bool

section \<open>The local heuristic (utils/predictions.ts)\<close>

text \<open>
  Lines 10 to 72 of \<open>calculateIdealTemperature\<close>: the value of the local variable
  \<open>idealTemp\<close> when the rounding step is reached. Each \<open>let\<close> is one assignment of the
  source, in the source's order; a \<open>switch\<close> without \<open>default\<close> leaves the variable as it
  is for every other tag.
\<close>

definition idealTempBeforeRounding :: "EnvironmentalData \<Rightarrow> number" where
  "idealTempBeforeRounding d =
    (let idealTemp = to_double 24;
         outdoorFactor = num_mul (num_sub (outdoorTemp d) (to_double 24)) (to_double 0.1);
         idealTemp = num_add idealTemp outdoorFactor;
         idealTemp = (if num_gt (humidity d) (to_double 70) then num_sub idealTemp (to_double 1)
                      else if num_lt (humidity d) (to_double 30)
                        then num_add idealTemp (to_double 0.5)
                      else idealTemp);
         occupancyAdjustment = Math_min (num_mul (occupancy d) (to_double 0.2)) (to_double 2);
         idealTemp = num_sub idealTemp occupancyAdjustment;
         idealTemp = (if weatherCondition d = ''sunny'' then num_sub idealTemp (to_double 0.5)
                      else if weatherCondition d = ''rainy'' \<or> weatherCondition d = ''cloudy''
                        then num_add idealTemp (to_double 0.5)
                      else if weatherCondition d = ''snowy'' \<or> weatherCondition d = ''stormy''
                        then num_add idealTemp (to_double 1)
                      else idealTemp);
         idealTemp = (if timeOfDay d = ''morning'' then num_add idealTemp (to_double 0.5)
                      else if timeOfDay d = ''afternoon'' then num_sub idealTemp (to_double 0.5)
                      else if timeOfDay d = ''night'' then num_add idealTemp (to_double 1)
                      else idealTemp);
         sunlightAdjustment =
           num_mul (num_div (sunlightIntensity d) (to_double 10)) (to_double 1.5);
         idealTemp = num_sub idealTemp sunlightAdjustment;
         idealTemp = (if num_gt (roomSize d) (to_double 50) then num_add idealTemp (to_double 0.5)
                      else idealTemp);
         idealTemp = (if windowOpen d
                      then (if num_gt (outdoorTemp d) (indoorTemp d)
                            then num_sub idealTemp (to_double 1)
                            else num_add idealTemp (to_double 0.5))
                      else idealTemp)
     in idealTemp)"

text \<open>Lines 75 and 76: the rounding step, applied to the value of \<open>idealTemp\<close>.\<close>

definition roundIdealTemp :: "number \<Rightarrow> number" where
  "roundIdealTemp idealTemp =
    (let decimal = js_rem idealTemp (to_double 1)
     in if num_lt decimal (to_double 0.5) then Math_floor idealTemp else Math_ceil idealTemp)"

definition calculateIdealTemperature :: "EnvironmentalData \<Rightarrow> number" where
  "calculateIdealTemperature d = roundIdealTemp (idealTempBeforeRounding d)"

text \<open>The state of end-to-end scenario 1 (also \<open>initialEnvironmentalData\<close> of utils/constants).\<close>

definition initialEnvironmentalData :: EnvironmentalData where
  "initialEnvironmentalData =
    \<lparr> indoorTemp = Finite 26, outdoorTemp = Finite 30, humidity = Finite 60,
      occupancy = Finite 2, weatherCondition = ''sunny'', timeOfDay = ''afternoon'',
      sunlightIntensity = Finite 7, roomSize = Finite 25, windowOpen = False \<rparr>"

section \<open>Option tables (utils/constants)\<close>

text \<open>
  The interface \<open>Option\<close> of types/index.ts, with its fields \<open>value\<close> and \<open>label\<close>; the
  two tables are lists, searched in order by \<open>Array.prototype.find\<close>.
\<close>

record UiOption =
  opt_value :: string
  opt_label :: string

definition weatherOptions :: "UiOption list" where
  "weatherOptions =
    [ \<lparr> opt_value = ''sunny'', opt_label = ''Sunny'' \<rparr>,
      \<lparr> opt_value = ''partlyCloudy'', opt_label = ''Partly Cloudy'' \<rparr>,
      \<lparr> opt_value = ''cloudy'', opt_label = ''Cloudy'' \<rparr>,
      \<lparr> opt_value = ''rainy'', opt_label = ''Rainy'' \<rparr>,
      \<lparr> opt_value = ''stormy'', opt_label = ''Stormy'' \<rparr>,
      \<lparr> opt_value = ''snowy'', opt_label = ''Snowy'' \<rparr>,
      \<lparr> opt_value = ''windy'', opt_label = ''Windy'' \<rparr>,
      \<lparr> opt_value = ''foggy'', opt_label = ''Foggy'' \<rparr> ]"

definition timeOptions :: "UiOption list" where
  "timeOptions =
    [ \<lparr> opt_value = ''morning'', opt_label = ''Morning (6AM-12PM)'' \<rparr>,
      \<lparr> opt_value = ''afternoon'', opt_label = ''Afternoon (12PM-5PM)'' \<rparr>,
      \<lparr> opt_value = ''evening'', opt_label = ''Evening (5PM-10PM)'' \<rparr>,
      \<lparr> opt_value = ''night'', opt_label = ''Night (10PM-6AM)'' \<rparr> ]"

section \<open>Mapping the form state to the request (App.tsx, handlePredict, lines 36 to 77)\<close>

record PredictionInput =
  Indoor_Temperature :: number
  Outdoor_Temperature :: number
  Humidity :: number
  Occupancy :: number
  Weather_Condition :: string
  Time_of_Day :: string
  Sunlight_Intensity :: number
  Room_Size :: string
  Window_State :: string

text \<open>Line 36 and line 49: the option whose \<open>value\<close> is the tag, \<open>None\<close> for \<open>undefined\<close>.\<close>

definition selectedWeatherOption :: "string \<Rightarrow> UiOption option" where
  "selectedWeatherOption tag = find (\<lambda>opt. opt_value opt = tag) weatherOptions"

definition selectedTimeOption :: "string \<Rightarrow> UiOption option" where
  "selectedTimeOption tag = find (\<lambda>opt. opt_value opt = tag) timeOptions"

text \<open>Lines 37 to 47. The variable starts as \<open>'Cloudy'\<close> and is assigned in three branches.\<close>

definition weatherConditionApi :: "string \<Rightarrow> string" where
  "weatherConditionApi tag =
    (let weatherConditionApi = ''Cloudy''
     in case selectedWeatherOption tag of
          None \<Rightarrow> weatherConditionApi
        | Some opt \<Rightarrow>
            (let label = opt_label opt
             in if label \<in> set [''Sunny'', ''Cloudy'', ''Rainy'', ''Snowy'', ''Foggy'']
                  then label
                else if label = ''Partly Cloudy'' \<or> label = ''Windy'' then ''Cloudy''
                else if label = ''Stormy'' then ''Rainy''
                else weatherConditionApi))"

text \<open>
  \<open>String.prototype.split\<close> with a one-character separator: the pieces between the
  separators, so the result is never empty. Index \<open>[0]\<close> of an array is \<open>undefined\<close>
  (here \<open>None\<close>) when the array is empty.
\<close>

fun js_split :: "char \<Rightarrow> string \<Rightarrow> string list" where
  "js_split sep [] = [[]]"
| "js_split sep (c # cs) =
    (if c = sep then [] # js_split sep cs
     else (case js_split sep cs of
             [] \<Rightarrow> [[c]]
           | w # ws \<Rightarrow> (c # w) # ws))"

definition js_index0 :: "'a list \<Rightarrow> 'a option" where
  "js_index0 xs = (case xs of [] \<Rightarrow> None | x # _ \<Rightarrow> Some x)"

text \<open>Lines 50 to 56. \<open>includes\<close> of \<open>undefined\<close> is false on an array of strings.\<close>

definition timeOfDayApi :: "string \<Rightarrow> string" where
  "timeOfDayApi tag =
    (let timeOfDayApi = ''Afternoon''
     in case selectedTimeOption tag of
          None \<Rightarrow> timeOfDayApi
        | Some opt \<Rightarrow>
            (case js_index0 (js_split (CHR '' '') (opt_label opt)) of
               None \<Rightarrow> timeOfDayApi
             | Some labelPart \<Rightarrow>
                 if labelPart \<in> set [''Morning'', ''Afternoon'', ''Evening'', ''Night'']
                   then labelPart
                 else timeOfDayApi))"

text \<open>Lines 58 to 65.\<close>

definition roomSizeApi :: "number \<Rightarrow> string" where
  "roomSizeApi area =
    (if num_lt area (to_double 15) then ''Small''
     else if num_lt area (to_double 30) then ''Medium''
     else ''Large'')"

text \<open>Lines 67 to 77.\<close>

definition apiInput :: "EnvironmentalData \<Rightarrow> PredictionInput" where
  "apiInput environmentalData =
    \<lparr> Indoor_Temperature = indoorTemp environmentalData,
      Outdoor_Temperature = outdoorTemp environmentalData,
      Humidity = humidity environmentalData,
      Occupancy = occupancy environmentalData,
      Weather_Condition = weatherConditionApi (weatherCondition environmentalData),
      Time_of_Day = timeOfDayApi (timeOfDay environmentalData),
      Sunlight_Intensity = sunlightIntensity environmentalData,
      Room_Size = roomSizeApi (roomSize environmentalData),
      Window_State = (if windowOpen environmentalData then ''Open'' else ''Closed'') \<rparr>"

section \<open>The remote client (services/api.ts)\<close>

text \<open>
  The values a parsed response body can be, with \<open>undefined\<close> for a property that is not
  there. An object is the list of its properties, each name once.
\<close>

datatype js_value =
    JUndefined
  | JNull
  | JBool bool
  | JNumber number
  | JString string
  | JArray "js_value list"
  | JObject "(string \<times> js_value) list"

text \<open>
  What a \<open>throw\<close> or a rejected promise carries: an instance of \<open>Error\<close> (with its
  \<open>message\<close>), or any other value.
\<close>

datatype thrown = ErrorInstance string | NotAnError

text \<open>
  The outcome of \<open>response.json()\<close>: it rejects with a \<open>SyntaxError\<close>, which is an
  \<open>Error\<close> and carries the parser's message, when the body is not well-formed JSON, and
  resolves to the parsed value otherwise.
\<close>

datatype body = Malformed string | Parsed js_value

record Response =
  status :: nat
  body :: body

text \<open>The getter \<open>ok\<close> of a response: the status is in the range 200 to 299.\<close>

definition ok :: "Response \<Rightarrow> bool" where
  "ok response = (200 \<le> status response \<and> status response \<le> 299)"

record Request =
  url :: string
  http_method :: string
  headers :: "(string \<times> string) list"
  payload :: PredictionInput

definition response_json :: "Response \<Rightarrow> thrown + js_value" where
  "response_json response =
    (case body response of
       Malformed m \<Rightarrow> Inl (ErrorInstance m)
     | Parsed v \<Rightarrow> Inr v)"

text \<open>
  Reading a property: a \<open>TypeError\<close> on \<open>null\<close> and \<open>undefined\<close> (\<open>Inl\<close> carries its
  message, which is the engine's; V8's wording is used), the property of an object, and
  \<open>undefined\<close> for a name that the value does not have.
\<close>

definition js_get :: "js_value \<Rightarrow> string \<Rightarrow> string + js_value" where
  "js_get v name =
    (case v of
       JUndefined \<Rightarrow>
         Inl (''Cannot read properties of undefined (reading '' @ [CHR 0x27]
              @ name @ [CHR 0x27] @ '')'')
     | JNull \<Rightarrow>
         Inl (''Cannot read properties of null (reading '' @ [CHR 0x27]
              @ name @ [CHR 0x27] @ '')'')
     | JObject props \<Rightarrow>
         (case map_of props name of None \<Rightarrow> Inr JUndefined | Some x \<Rightarrow> Inr x)
     | _ \<Rightarrow> Inr JUndefined)"

text \<open>The values that \<open>||\<close> and \<open>if\<close> take as true.\<close>

definition truthy :: "js_value \<Rightarrow> bool" where
  "truthy v =
    (case v of
       JUndefined \<Rightarrow> False
     | JNull \<Rightarrow> False
     | JBool b \<Rightarrow> b
     | JNumber n \<Rightarrow> n \<noteq> Finite 0 \<and> n \<noteq> NaN
     | JString s \<Rightarrow> s \<noteq> []
     | _ \<Rightarrow> True)"

text \<open>The decimal digits of a status code, as a template literal prints it.\<close>

fun show_nat :: "nat \<Rightarrow> string" where
  "show_nat n =
    (if n < 10 then [char_of (48 + n)]
     else show_nat (n div 10) @ [char_of (48 + n mod 10)])"

declare show_nat.simps [simp del]

definition API_BASE_URL :: string where
  "API_BASE_URL = ''https://ac-backend-hidq.onrender.com''"

definition predictRequest :: "PredictionInput \<Rightarrow> Request" where
  "predictRequest data =
    \<lparr> url = API_BASE_URL @ ''/predict'',
      http_method = ''POST'',
      headers = [(''Content-Type'', ''application/json'')],
      payload = data \<rparr>"

text \<open>
  \<open>new Error(x)\<close> takes the string \<open>x\<close> as its message and converts any other value
  with the platform's \<open>ToString\<close>, which is a parameter here.
\<close>

definition new_Error :: "(js_value \<Rightarrow> string) \<Rightarrow> js_value \<Rightarrow> thrown" where
  "new_Error ToString v =
    ErrorInstance (case v of JString s \<Rightarrow> s | _ \<Rightarrow> ToString v)"

text \<open>Lines 32 to 46: the body of the \<open>try\<close>; \<open>Inl\<close> is what it throws.\<close>

definition predictionTry ::
  "(js_value \<Rightarrow> string) \<Rightarrow> (Request \<Rightarrow> thrown + Response) \<Rightarrow> PredictionInput
    \<Rightarrow> thrown + js_value" where
  "predictionTry ToString fetch data =
    (case fetch (predictRequest data) of
       Inl e \<Rightarrow> Inl e
     | Inr response \<Rightarrow>
         if \<not> ok response then
           (case response_json response of
              Inl e \<Rightarrow> Inl e
            | Inr errorData \<Rightarrow>
                (case js_get errorData ''error'' of
                   Inl m \<Rightarrow> Inl (ErrorInstance m)
                 | Inr err \<Rightarrow>
                     Inl (new_Error ToString
                           (if truthy err then err
                            else JString (''API request failed with status ''
                                          @ show_nat (status response))))))
         else response_json response)"

text \<open>
  Lines 47 to 53: the \<open>catch\<close>. Whatever the function throws is an \<open>Error\<close>, so the
  result carries only its message (\<open>Inl\<close>); \<open>Inr\<close> is the returned \<open>responseData\<close>.
\<close>

definition getIdealTemperaturePrediction ::
  "(js_value \<Rightarrow> string) \<Rightarrow> (Request \<Rightarrow> thrown + Response) \<Rightarrow> PredictionInput
    \<Rightarrow> string + js_value" where
  "getIdealTemperaturePrediction ToString fetch data =
    (case predictionTry ToString fetch data of
       Inr responseData \<Rightarrow> Inr responseData
     | Inl error \<Rightarrow>
         (case error of
            ErrorInstance m \<Rightarrow> Inl m
          | NotAnError \<Rightarrow> Inl ''An unknown error occurred while fetching prediction.''))"

section \<open>The predict action (App.tsx, handlePredict)\<close>

text \<open>
  The three state cells that \<open>handlePredict\<close> writes, and its effects in program order:
  the calls of the state setters and the remote call. Logging to the console is left out.
\<close>

record UiState =
  isLoading :: bool
  error :: "string option"
  predictedTemperature :: "js_value option"

datatype effect =
    SetIsLoading bool
  | SetError "string option"
  | SetPredictedTemperature "js_value option"
  | RemoteCall PredictionInput

fun apply_effect :: "UiState \<Rightarrow> effect \<Rightarrow> UiState" where
  "apply_effect s (SetIsLoading b) = s\<lparr>isLoading := b\<rparr>"
| "apply_effect s (SetError e) = s\<lparr>error := e\<rparr>"
| "apply_effect s (SetPredictedTemperature t) = s\<lparr>predictedTemperature := t\<rparr>"
| "apply_effect s (RemoteCall _) = s"

definition run_effects :: "UiState \<Rightarrow> effect list \<Rightarrow> UiState" where
  "run_effects s es = foldl apply_effect s es"

text \<open>Lines 82 to 84: the \<open>catch\<close> of \<open>handlePredict\<close>, given the message of the error.\<close>

definition handlePredict_catch :: "string \<Rightarrow> effect list" where
  "handlePredict_catch message =
    [SetError (Some (if message \<noteq> [] then message
                     else ''Failed to get prediction. Please try again.''))]"

text \<open>
  Lines 79 to 87: everything from the remote call on. Reading
  \<open>response.predicted_ideal_temperature\<close> throws a \<open>TypeError\<close> inside the \<open>try\<close> when
  the response is \<open>null\<close>; the \<open>finally\<close> runs last on every path.
\<close>

definition handlePredict_try ::
  "(js_value \<Rightarrow> string) \<Rightarrow> (Request \<Rightarrow> thrown + Response) \<Rightarrow> PredictionInput
    \<Rightarrow> effect list" where
  "handlePredict_try ToString fetch input =
    [RemoteCall input] @
    (case getIdealTemperaturePrediction ToString fetch input of
       Inr response \<Rightarrow>
         (case js_get response ''predicted_ideal_temperature'' of
            Inr t \<Rightarrow> [SetPredictedTemperature (Some t)]
          | Inl m \<Rightarrow> handlePredict_catch m)
     | Inl m \<Rightarrow> handlePredict_catch m) @
    [SetIsLoading False]"

definition handlePredict ::
  "(js_value \<Rightarrow> string) \<Rightarrow> (Request \<Rightarrow> thrown + Response) \<Rightarrow> EnvironmentalData
    \<Rightarrow> effect list" where
  "handlePredict ToString fetch environmentalData =
    [SetIsLoading True, SetError None, SetPredictedTemperature None] @
    handlePredict_try ToString fetch (apiInput environmentalData)"

text \<open>
  A server for the scenarios: \<open>fetch\<close> resolves to the given response, whatever the
  request.
\<close>

definition server_replies :: "Response \<Rightarrow> Request \<Rightarrow> thrown + Response" where
  "server_replies response request = Inr response"

section \<open>Magnitudes\<close>

text \<open>A finite value of magnitude at most \<open>n * 2 ^ 1020\<close>; \<open>2 ^ 1024\<close> is sixteen such units.\<close>

definition magnitude :: "nat \<Rightarrow> number \<Rightarrow> bool" where
  "magnitude n x = (\<exists>r. x = Finite r \<and> \<bar>r\<bar> \<le> of_nat n * 2 ^ 1020)"

section \<open>Rounding to a double\<close>

text \<open>
  The exponent brackets the magnitude between two powers of two.
\<close>

lemma expo_bounds:
  assumes "q \<noteq> 0"
  shows "2 powi expo q \<le> \<bar>q\<bar>" and "\<bar>q\<bar> < 2 powi (expo q + 1)"
proof -
  obtain a b where ab: "quotient_of \<bar>q\<bar> = (a, b)"
    by (cases "quotient_of \<bar>q\<bar>")
  have b: "0 < b"
    using ab quotient_of_denom_pos by blast
  have q: "\<bar>q\<bar> = of_int a / of_int b"
    using ab quotient_of_div by blast
  have a: "0 < a"
  proof -
    have "0 < \<bar>q\<bar>" using assms by simp
    then have "0 < (of_int a :: rat) / of_int b" using q by simp
    with b show ?thesis by (simp add: zero_less_divide_iff)
  qed
  define la where "la = bitlen a"
  define lb where "lb = bitlen b"
  have la1: "1 \<le> la" and lb1: "1 \<le> lb"
    using a b bitlen_eq_zero_iff [of a] bitlen_eq_zero_iff [of b] bitlen_nonneg [of a]
      bitlen_nonneg [of b]
    unfolding la_def lb_def by linarith+
  have ia: "2 ^ nat (la - 1) \<le> a" "a < 2 ^ nat la"
    using bitlen_bounds [OF a] unfolding la_def by auto
  have ib: "2 ^ nat (lb - 1) \<le> b" "b < 2 ^ nat lb"
    using bitlen_bounds [OF b] unfolding lb_def by auto
  have ra: "(2::rat) powi (la - 1) \<le> of_int a" "(of_int a :: rat) < 2 powi la"
  proof -
    have "(of_int (2 ^ nat (la - 1)) :: rat) \<le> of_int a"
      using ia(1) of_int_le_iff by blast
    then show "(2::rat) powi (la - 1) \<le> of_int a"
      using la1 by (simp add: power_int_def)
    have "(of_int a :: rat) < of_int (2 ^ nat la)"
      using ia(2) of_int_less_iff by blast
    then show "(of_int a :: rat) < 2 powi la"
      using la1 by (simp add: power_int_def)
  qed
  have rb: "(2::rat) powi (lb - 1) \<le> of_int b" "(of_int b :: rat) < 2 powi lb"
  proof -
    have "(of_int (2 ^ nat (lb - 1)) :: rat) \<le> of_int b"
      using ib(1) of_int_le_iff by blast
    then show "(2::rat) powi (lb - 1) \<le> of_int b"
      using lb1 by (simp add: power_int_def)
    have "(of_int b :: rat) < of_int (2 ^ nat lb)"
      using ib(2) of_int_less_iff by blast
    then show "(of_int b :: rat) < 2 powi lb"
      using lb1 by (simp add: power_int_def)
  qed
  define k where "k = la - lb"
  have rbpos: "(0::rat) < of_int b" using b by simp
  have rapos: "(0::rat) < of_int a" using a by simp
  have upper: "\<bar>q\<bar> < 2 powi (k + 1)"
  proof -
    have "of_int a / of_int b < (2::rat) powi la / of_int b"
      using ra(2) rbpos by (simp add: divide_strict_right_mono)
    also have "\<dots> \<le> 2 powi la / 2 powi (lb - 1)"
      using rb(1) by (simp add: frac_le)
    also have "\<dots> = 2 powi (k + 1)"
    proof -
      have e2: "k + 1 = la - (lb - 1)" unfolding k_def by arith
      have e1: "(2::rat) powi (la - (lb - 1)) = 2 powi la / 2 powi (lb - 1)"
        by (rule power_int_diff) simp
      show ?thesis by (simp only: e2 e1)
    qed
    finally show ?thesis using q by simp
  qed
  have lower: "2 powi (k - 1) < \<bar>q\<bar>"
  proof -
    have e1: "(2::rat) powi (la - 1 - lb) = 2 powi (la - 1) / 2 powi lb"
      by (rule power_int_diff) simp
    have e2: "k - 1 = la - 1 - lb" unfolding k_def by arith
    have "(2::rat) powi (k - 1) = 2 powi (la - 1) / 2 powi lb"
      by (simp only: e2 e1)
    also have "\<dots> \<le> of_int a / 2 powi lb"
      using ra(1) by (simp add: divide_right_mono)
    also have "\<dots> < of_int a / of_int b"
      using rb(2) rapos rbpos by (simp add: frac_less2)
    finally show ?thesis using q by simp
  qed
  have e: "expo q = (if 2 powi k \<le> \<bar>q\<bar> then k else k - 1)"
    unfolding expo_def ab k_def la_def lb_def by (simp add: Let_def)
  show "2 powi expo q \<le> \<bar>q\<bar>"
    using lower unfolding e by auto
  show "\<bar>q\<bar> < 2 powi (expo q + 1)"
    using upper unfolding e by auto
qed

text \<open>
  Rounding to an integer does not cross an integer, nor the midpoint next to it.
\<close>

lemma round_half_even_le:
  assumes "x < of_int m + 1 / 2"
  shows "round_half_even x \<le> m"
proof -
  have f: "\<lfloor>x\<rfloor> \<le> m"
    using assms by (simp add: floor_le_iff) 
  show ?thesis
  proof (cases "\<lfloor>x\<rfloor> = m")
    case True
    then have "x - of_int \<lfloor>x\<rfloor> < 1 / 2" using assms by simp
    then show ?thesis using True by (simp add: round_half_even_def Let_def)
  next
    case False
    then have "\<lfloor>x\<rfloor> + 1 \<le> m" using f by simp
    then show ?thesis by (auto simp add: round_half_even_def Let_def)
  qed
qed

lemma round_half_even_ge:
  assumes "of_int m - 1 / 2 < x"
  shows "m \<le> round_half_even x"
proof -
  have f: "m - 1 \<le> \<lfloor>x\<rfloor>"
    using assms by (simp add: le_floor_iff)
  show ?thesis
  proof (cases "\<lfloor>x\<rfloor> = m - 1")
    case True
    then have "1 / 2 < x - of_int \<lfloor>x\<rfloor>" using assms by simp
    then show ?thesis using True by (simp add: round_half_even_def Let_def)
  next
    case False
    then have "m \<le> \<lfloor>x\<rfloor>" using f by simp
    then show ?thesis by (auto simp add: round_half_even_def Let_def)
  qed
qed

lemma round_half_even_abs_le:
  assumes "\<bar>x\<bar> < of_int m + 1 / 2"
  shows "\<bar>round_half_even x\<bar> \<le> m"
proof -
  have "x < of_int m + 1 / 2" using assms by linarith
  then have 1: "round_half_even x \<le> m" by (rule round_half_even_le)
  have "of_int (- m) - 1 / 2 < x" using assms by simp
  then have 2: "- m \<le> round_half_even x" by (rule round_half_even_ge)
  from 1 2 show ?thesis by linarith
qed


lemma expo_less:
  assumes "q \<noteq> 0" and "\<bar>q\<bar> < 2 powi n"
  shows "expo q < n"
proof (rule ccontr)
  assume "\<not> expo q < n"
  then have "n \<le> expo q" by simp
  then have "(2::rat) powi n \<le> 2 powi expo q"
    by (simp add: power_int_increasing)
  also have "\<dots> \<le> \<bar>q\<bar>" using expo_bounds(1) [OF assms(1)] .
  finally show False using assms(2) by simp
qed

lemma ulp_pos: "0 < ulp q"
  by (simp add: ulp_def)

lemma ulp_divides:
  assumes "max (expo q) (- 1022) - 52 \<le> c"
  shows "\<exists>N::int. 0 < N \<and> (2::rat) powi c = of_int N * ulp q"
proof -
  define d where "d = max (expo q) (- 1022) - 52"
  have "(2::rat) powi (d + (c - d)) = 2 powi d * 2 powi (c - d)"
    by (rule power_int_add) simp
  moreover have "d + (c - d) = c" by simp
  moreover have "(2::rat) powi (c - d) = of_int (2 ^ nat (c - d))"
    using assms unfolding d_def by (simp add: power_int_def)
  ultimately have "(2::rat) powi c = of_int (2 ^ nat (c - d)) * ulp q"
    unfolding ulp_def d_def by (simp add: mult.commute)
  moreover have "(0::int) < 2 ^ nat (c - d)" by simp
  ultimately show ?thesis by blast
qed

text \<open>
  A rational whose magnitude is at most a multiple of its own spacing, below the
  overflow threshold, rounds to a finite value within the same bound.
\<close>

lemma to_double_ulp_bound:
  assumes "q \<noteq> 0" and q: "\<bar>q\<bar> < (of_int K + 1 / 2) * ulp q"
    and lt: "of_int K * ulp q < 2 ^ 1024"
  shows "\<exists>r. to_double q = Finite r \<and> \<bar>r\<bar> \<le> of_int K * ulp q"
proof -
  define x where "x = q / ulp q"
  have "\<bar>x\<bar> = \<bar>q\<bar> / ulp q"
    unfolding x_def using ulp_pos [of q] by (simp add: abs_divide)
  also have "\<dots> < of_int K + 1 / 2"
    using q ulp_pos [of q] by (simp add: pos_divide_less_eq)
  finally have rhe: "\<bar>round_half_even x\<bar> \<le> K"
    by (rule round_half_even_abs_le)
  define r where "r = of_int (round_half_even x) * ulp q"
  have "\<bar>r\<bar> = of_int \<bar>round_half_even x\<bar> * ulp q"
    unfolding r_def using ulp_pos [of q] by (simp add: abs_mult)
  also have "\<dots> \<le> of_int K * ulp q"
    using rhe ulp_pos [of q] by (simp add: mult_right_mono)
  finally have rb: "\<bar>r\<bar> \<le> of_int K * ulp q" .
  then have "\<not> 2 ^ 1024 \<le> \<bar>r\<bar>" using lt by linarith
  then have "to_double q = Finite r"
    using \<open>q \<noteq> 0\<close> unfolding to_double_def r_def x_def Let_def by (simp only: if_False)
  with rb show ?thesis by blast
qed

text \<open>
  The same for a bound that is a multiple of \<open>2 ^ 971\<close>, the spacing of the largest
  doubles: every smaller spacing divides it.
\<close>

lemma to_double_grid_bound:
  assumes q: "\<bar>q\<bar> \<le> of_int M * P" and P: "P = 2 powi 971" and lt: "of_int M * P < 2 ^ 1024"
  shows "\<exists>r. to_double q = Finite r \<and> \<bar>r\<bar> \<le> of_int M * P"
proof (cases "q = 0")
  case True
  then show ?thesis using q by (simp add: to_double_def)
next
  case False
  have "\<bar>q\<bar> < 2 ^ 1024" using q lt by linarith
  then have "\<bar>q\<bar> < 2 powi 1024" by simp
  then have "expo q < 1024" by (rule expo_less [OF False])
  then have "max (expo q) (- 1022) - 52 \<le> 971" by simp
  then obtain N :: int where N: "0 < N" "(2::rat) powi 971 = of_int N * ulp q"
    using ulp_divides by blast
  have PN: "P = of_int N * ulp q" using N(2) P by (simp only:)
  have B: "of_int M * P = of_int (M * N) * ulp q"
    unfolding PN by simp
  have "\<bar>q\<bar> < (of_int (M * N) + 1 / 2) * ulp q"
  proof -
    have "\<bar>q\<bar> \<le> of_int (M * N) * ulp q" using q B by (simp only:)
    also have "\<dots> < (of_int (M * N) + 1 / 2) * ulp q"
      using ulp_pos [of q] by (simp add: distrib_right del: of_int_mult)
    finally show ?thesis .
  qed
  moreover have "of_int (M * N) * ulp q < 2 ^ 1024" using lt B by (simp only:)
  ultimately have "\<exists>r. to_double q = Finite r \<and> \<bar>r\<bar> \<le> of_int (M * N) * ulp q"
    by (rule to_double_ulp_bound [OF False])
  then show ?thesis using B by (simp only:)
qed


lemma MAX_VALUE_grid: "MAX_VALUE = of_int (2 ^ 53 - 1) * 2 powi 971"
  by (simp add: MAX_VALUE_def)

lemma expo_top:
  assumes "expo q = 1023"
  shows "ulp q = 2 powi 971"
  using assms by (simp add: ulp_def)

lemma below_top_binade:
  assumes "q \<noteq> 0" and "expo q < 1023"
  shows "\<bar>q\<bar> \<le> MAX_VALUE"
proof -
  have "expo q + 1 \<le> 1023" using assms(2) by simp
  then have "(2::rat) powi (expo q + 1) \<le> 2 powi 1023"
    by (simp only: power_int_increasing one_le_numeral)
  with expo_bounds(2) [OF assms(1)] have "\<bar>q\<bar> < 2 powi 1023" by linarith
  moreover have "(2::rat) powi 1023 \<le> MAX_VALUE"
    by (simp add: MAX_VALUE_def)
  ultimately show ?thesis by linarith
qed

text \<open>
  Up to half a spacing above \<open>MAX_VALUE\<close> the rounding is finite, and at most
  \<open>MAX_VALUE\<close>.
\<close>

lemma to_double_near_MAX_VALUE:
  assumes "\<bar>q\<bar> < 2 ^ 1024 - 2 ^ 970"
  shows "\<exists>r. to_double q = Finite r \<and> \<bar>r\<bar> \<le> MAX_VALUE"
proof (cases "q = 0")
  case True
  then show ?thesis by (simp add: to_double_def MAX_VALUE_def)
next
  case False
  have lt: "of_int (2 ^ 53 - 1) * (2::rat) powi 971 < 2 ^ 1024"
    by simp
  have "\<bar>q\<bar> < 2 powi 1024" using assms by simp
  then have e: "expo q < 1024" by (rule expo_less [OF False])
  show ?thesis
  proof (cases "expo q = 1023")
    case True
    then have u: "ulp q = 2 powi 971" by (rule expo_top)
    have "(of_int (2 ^ 53 - 1) + 1 / 2) * (2::rat) powi 971 = 2 ^ 1024 - 2 ^ 970"
      by simp
    then have "\<bar>q\<bar> < (of_int (2 ^ 53 - 1) + 1 / 2) * ulp q"
      using assms u by (simp only:)
    moreover have "of_int (2 ^ 53 - 1) * ulp q < 2 ^ 1024"
      using lt u by (simp only:)
    ultimately have "\<exists>r. to_double q = Finite r \<and> \<bar>r\<bar> \<le> of_int (2 ^ 53 - 1) * ulp q"
      by (rule to_double_ulp_bound [OF False])
    then show ?thesis using u MAX_VALUE_grid by (simp only:)
  next
    case False
    with e have "expo q < 1023" by simp
    then have "\<bar>q\<bar> \<le> MAX_VALUE" by (rule below_top_binade [OF \<open>q \<noteq> 0\<close>])
    then have "\<bar>q\<bar> \<le> of_int (2 ^ 53 - 1) * 2 powi 971" by (simp only: MAX_VALUE_grid)
    then have "\<exists>r. to_double q = Finite r \<and> \<bar>r\<bar> \<le> of_int (2 ^ 53 - 1) * 2 powi 971"
      using refl lt by (rule to_double_grid_bound)
    then show ?thesis by (simp only: MAX_VALUE_grid)
  qed
qed

text \<open>
  A finite double is at most \<open>MAX_VALUE\<close> in magnitude.
\<close>

lemma double_le_MAX_VALUE:
  assumes "to_double x = Finite x"
  shows "\<bar>x\<bar> \<le> MAX_VALUE"
proof (cases "x = 0")
  case True
  then show ?thesis by (simp add: MAX_VALUE_def)
next
  case False
  define m where "m = round_half_even (x / ulp x)"
  have r: "\<not> 2 ^ 1024 \<le> \<bar>of_int m * ulp x\<bar> \<and> x = of_int m * ulp x"
    using assms False unfolding to_double_def m_def Let_def
    by (auto split: if_splits)
  from r have "\<not> 2 ^ 1024 \<le> \<bar>of_int m * ulp x\<bar>" by (rule conjunct1)
  then have r1: "\<bar>of_int m * ulp x\<bar> < 2 ^ 1024" by (simp only: not_le)
  from r have r2: "x = of_int m * ulp x" by (rule conjunct2)
  from r2 have ax: "\<bar>x\<bar> = \<bar>of_int m * ulp x\<bar>" by (rule arg_cong)
  with r1 have "\<bar>x\<bar> < 2 ^ 1024" by (simp only:)
  then have "\<bar>x\<bar> < 2 powi 1024" by simp
  then have e: "expo x < 1024" by (rule expo_less [OF False])
  show ?thesis
  proof (cases "expo x = 1023")
    case True
    then have u: "ulp x = 2 powi 971" by (rule expo_top)
    have "of_int \<bar>m\<bar> * (2::rat) powi 971 = \<bar>of_int m * ulp x\<bar>"
      unfolding u by (simp add: abs_mult)
    also have "\<dots> < 2 ^ 1024" using r1 .
    also have "\<dots> = of_int (2 ^ 53) * (2::rat) powi 971" by simp
    finally have "(of_int \<bar>m\<bar> :: rat) < of_int (2 ^ 53)"
      by (simp only: mult_less_cancel_right_pos zero_less_power_int zero_less_numeral)
    then have "\<bar>m\<bar> < 2 ^ 53" by (simp only: of_int_less_iff)
    then have "\<bar>m\<bar> \<le> 2 ^ 53 - 1" by simp
    then have "(of_int \<bar>m\<bar> :: rat) \<le> of_int (2 ^ 53 - 1)" by (simp only: of_int_le_iff)
    then have "of_int \<bar>m\<bar> * (2::rat) powi 971 \<le> of_int (2 ^ 53 - 1) * 2 powi 971"
      by (rule mult_right_mono) simp
    moreover have "\<bar>x\<bar> = of_int \<bar>m\<bar> * (2::rat) powi 971"
      unfolding ax u by (simp add: abs_mult)
    ultimately show ?thesis by (simp only: MAX_VALUE_grid)
  next
    case False
    with e have "expo x < 1023" by simp
    then show ?thesis by (rule below_top_binade [OF \<open>x \<noteq> 0\<close>])
  qed
qed


lemma expo_unique:
  assumes "2 powi e \<le> \<bar>q\<bar>" and "\<bar>q\<bar> < 2 powi (e + 1)"
  shows "expo q = e"
proof -
  have "(0::rat) < 2 powi e" by simp
  with assms(1) have "0 < \<bar>q\<bar>" by linarith
  then have q: "q \<noteq> 0" by simp
  have "expo q < e + 1" using q assms(2) by (rule expo_less)
  moreover have "e < expo q + 1"
  proof (rule ccontr)
    assume "\<not> e < expo q + 1"
    then have "expo q + 1 \<le> e" by simp
    then have "(2::rat) powi (expo q + 1) \<le> 2 powi e"
      by (simp add: power_int_increasing)
    with expo_bounds(2) [OF q] assms(1) show False by linarith
  qed
  ultimately show ?thesis by simp
qed

lemma round_half_even_unique:
  assumes "of_int m - 1 / 2 < x" and "x < of_int m + 1 / 2"
  shows "round_half_even x = m"
  using round_half_even_ge [OF assms(1)] round_half_even_le [OF assms(2)] by simp

text \<open>
  The rounding of a given rational, from its exponent \<open>e\<close> and the significand \<open>m\<close> of the
  result.
\<close>

lemma to_double_eqI:
  assumes e: "2 powi e \<le> \<bar>q\<bar>" "\<bar>q\<bar> < 2 powi (e + 1)"
    and c: "c = max e (- 1022) - 52"
    and m: "of_int m - 1 / 2 < q / 2 powi c" "q / 2 powi c < of_int m + 1 / 2"
    and r: "r = of_int m * 2 powi c" "\<bar>r\<bar> < 2 ^ 1024"
  shows "to_double q = Finite r"
proof -
  have "(0::rat) < 2 powi e" by simp
  with e(1) have "0 < \<bar>q\<bar>" by linarith
  then have q: "q \<noteq> 0" by simp
  have u: "ulp q = 2 powi c"
    unfolding ulp_def c expo_unique [OF e] ..
  have "round_half_even (q / ulp q) = m"
    unfolding u using m by (rule round_half_even_unique)
  then have "of_int (round_half_even (q / ulp q)) * ulp q = r"
    unfolding u r(1) by simp
  moreover have "\<not> 2 ^ 1024 \<le> \<bar>r\<bar>" using r(2) by simp
  ultimately show ?thesis
    using q unfolding to_double_def Let_def by simp
qed

lemma round_half_even_tie:
  assumes "x = of_int f + 1 / 2"
  shows "round_half_even x = (if even f then f else f + 1)"
proof -
  have "\<lfloor>x\<rfloor> = f"
    unfolding assms by (rule floor_unique) simp_all
  then show ?thesis
    unfolding round_half_even_def Let_def assms by simp
qed

text \<open>The same for a tie, which goes to the even significand.\<close>

lemma to_double_tieI:
  assumes e: "2 powi e \<le> \<bar>q\<bar>" "\<bar>q\<bar> < 2 powi (e + 1)"
    and c: "c = max e (- 1022) - 52"
    and f: "q / 2 powi c = of_int f + 1 / 2"
    and m: "m = (if even f then f else f + 1)"
    and r: "r = of_int m * 2 powi c" "\<bar>r\<bar> < 2 ^ 1024"
  shows "to_double q = Finite r"
proof -
  have "(0::rat) < 2 powi e" by simp
  with e(1) have "0 < \<bar>q\<bar>" by linarith
  then have q: "q \<noteq> 0" by simp
  have u: "ulp q = 2 powi c"
    unfolding ulp_def c expo_unique [OF e] ..
  have "round_half_even (q / ulp q) = m"
    unfolding u m using f by (rule round_half_even_tie)
  then have "of_int (round_half_even (q / ulp q)) * ulp q = r"
    unfolding u r(1) by simp
  moreover have "\<not> 2 ^ 1024 \<le> \<bar>r\<bar>" using r(2) by simp
  ultimately show ?thesis
    using q unfolding to_double_def Let_def by simp
qed

section \<open>The literals of the source\<close>

lemma lit_0: "to_double 0 = Finite 0"
  by (simp add: to_double_def)

lemma lit_24: "to_double 24 = Finite 24"
  by (rule to_double_eqI [where e = "4" and m = "6755399441055744" and c = "(- 48)"]) simp_all

lemma lit_0_1: "to_double (1 / 10) = Finite (3602879701896397 / 36028797018963968)"
  by (rule to_double_eqI [where e = "(- 4)" and m = "7205759403792794" and c = "(- 56)"]) simp_all

lemma lit_70: "to_double 70 = Finite 70"
  by (rule to_double_eqI [where e = "6" and m = "4925812092436480" and c = "(- 46)"]) simp_all

lemma lit_1: "to_double 1 = Finite 1"
  by (rule to_double_eqI [where e = "0" and m = "4503599627370496" and c = "(- 52)"]) simp_all

lemma lit_30: "to_double 30 = Finite 30"
  by (rule to_double_eqI [where e = "4" and m = "8444249301319680" and c = "(- 48)"]) simp_all

lemma lit_0_5: "to_double (1 / 2) = Finite (1 / 2)"
  by (rule to_double_eqI [where e = "(- 1)" and m = "4503599627370496" and c = "(- 53)"]) simp_all

lemma lit_0_2: "to_double (1 / 5) = Finite (3602879701896397 / 18014398509481984)"
  by (rule to_double_eqI [where e = "(- 3)" and m = "7205759403792794" and c = "(- 55)"]) simp_all

lemma lit_2: "to_double 2 = Finite 2"
  by (rule to_double_eqI [where e = "1" and m = "4503599627370496" and c = "(- 51)"]) simp_all

lemma lit_10: "to_double 10 = Finite 10"
  by (rule to_double_eqI [where e = "3" and m = "5629499534213120" and c = "(- 49)"]) simp_all

lemma lit_1_5: "to_double (3 / 2) = Finite (3 / 2)"
  by (rule to_double_eqI [where e = "0" and m = "6755399441055744" and c = "(- 52)"]) simp_all

lemma lit_50: "to_double 50 = Finite 50"
  by (rule to_double_eqI [where e = "5" and m = "7036874417766400" and c = "(- 47)"]) simp_all

lemma lit_15: "to_double 15 = Finite 15"
  by (rule to_double_eqI [where e = "3" and m = "8444249301319680" and c = "(- 49)"]) simp_all

lemmas literals =
  lit_0 lit_24 lit_0_1 lit_70 lit_1 lit_30
  lit_0_5 lit_0_2 lit_2 lit_10 lit_1_5 lit_50
  lit_15

section \<open>Properties of the local heuristic\<close>

text \<open>The rounding step on a finite value.\<close>

lemma roundIdealTemp_Finite:
  "roundIdealTemp (Finite x) =
     Finite (of_int (if x - of_int (js_trunc x) < 1 / 2 then \<lfloor>x\<rfloor> else \<lceil>x\<rceil>))"
  by (simp add: roundIdealTemp_def Let_def literals)

text \<open>The roundings that the steps of scenario 1 make.\<close>

lemma round_scenario_1_1:
  "to_double 6 = Finite 6"
  by (rule to_double_eqI [where e = "2" and m = "6755399441055744" and c = "(- 50)"]) simp_all

lemma round_scenario_1_2:
  "to_double (10808639105689191 / 18014398509481984) = Finite (1351079888211149 / 2251799813685248)"
  by (rule to_double_tieI [where e = "(- 1)" and f = "5404319552844595" and m = "5404319552844596" and c = "(- 53)"]) simp_all

lemma round_scenario_1_3:
  "to_double (55394275416657101 / 2251799813685248) = Finite (3462142213541069 / 140737488355328)"
  by (rule to_double_eqI [where e = "4" and m = "6924284427082138" and c = "(- 48)"]) simp_all

lemma round_scenario_1_4:
  "to_double (3602879701896397 / 9007199254740992) = Finite (3602879701896397 / 9007199254740992)"
  by (rule to_double_eqI [where e = "(- 2)" and m = "7205759403792794" and c = "(- 54)"]) simp_all

lemma round_scenario_1_5:
  "to_double (217974221964732019 / 9007199254740992) = Finite (1702923609099469 / 70368744177664)"
  by (rule to_double_eqI [where e = "4" and m = "6811694436397876" and c = "(- 48)"]) simp_all

lemma round_scenario_1_6:
  "to_double (1667739237010637 / 70368744177664) = Finite (1667739237010637 / 70368744177664)"
  by (rule to_double_eqI [where e = "4" and m = "6670956948042548" and c = "(- 48)"]) simp_all

lemma round_scenario_1_7:
  "to_double (1632554864921805 / 70368744177664) = Finite (1632554864921805 / 70368744177664)"
  by (rule to_double_eqI [where e = "4" and m = "6530219459687220" and c = "(- 48)"]) simp_all

lemma round_scenario_1_8:
  "to_double (7 / 10) = Finite (3152519739159347 / 4503599627370496)"
  by (rule to_double_eqI [where e = "(- 1)" and m = "6305039478318694" and c = "(- 53)"]) simp_all

lemma round_scenario_1_9:
  "to_double (9457559217478041 / 9007199254740992) = Finite (1182194902184755 / 1125899906842624)"
  by (rule to_double_tieI [where e = "0" and f = "4728779608739020" and m = "4728779608739020" and c = "(- 52)"]) simp_all

lemma round_scenario_1_10:
  "to_double (24938682936564125 / 1125899906842624) = Finite (6234670734141031 / 281474976710656)"
  by (rule to_double_eqI [where e = "4" and m = "6234670734141031" and c = "(- 48)"]) simp_all

lemmas steps_scenario_1 =
  round_scenario_1_1 round_scenario_1_2 round_scenario_1_3 round_scenario_1_4 round_scenario_1_5
  round_scenario_1_6 round_scenario_1_7 round_scenario_1_8 round_scenario_1_9 round_scenario_1_10

text \<open>
  C1. On the state of end-to-end scenario 1 \<open>calculateIdealTemperature\<close> returns 22, the
  value that the steps applied by hand give: base 24, outdoor drift \<open>+0.6\<close>, no humidity
  change, occupancy \<open>-0.4\<close>, sunny \<open>-0.5\<close>, afternoon \<open>-0.5\<close>, sunlight \<open>-1.05\<close>, no
  room-size and no window change, then the floor branch of the rounding. In doubles the
  value before rounding is within \<open>10 ^ -14\<close> of the sum 22.15 of these steps, its
  remainder is below one half, and its floor is 22.
\<close>

theorem scenario_1_by_hand:
  "let d = \<lparr> indoorTemp = Finite 26, outdoorTemp = Finite 30, humidity = Finite 60,
          occupancy = Finite 2, weatherCondition = ''sunny'', timeOfDay = ''afternoon'',
          sunlightIntensity = Finite 7, roomSize = Finite 25, windowOpen = False \<rparr>
   in idealTempBeforeRounding d = Finite (6234670734141031 / 281474976710656)
    \<and> \<bar>(6234670734141031 / 281474976710656) - (24 + 0.6 - 0.4 - 0.5 - 0.5 - 1.05)\<bar> < (1::rat) / 10 ^ 14
    \<and> roundIdealTemp (Finite (24 + 0.6 - 0.4 - 0.5 - 0.5 - 1.05)) = Finite 22
    \<and> num_lt (js_rem (idealTempBeforeRounding d) (to_double 1)) (to_double 0.5)
    \<and> Math_floor (idealTempBeforeRounding d) = Finite 22
    \<and> calculateIdealTemperature d = Finite 22"
proof -
  let ?d = "\<lparr> indoorTemp = Finite 26, outdoorTemp = Finite 30, humidity = Finite 60,
          occupancy = Finite 2, weatherCondition = ''sunny'', timeOfDay = ''afternoon'',
          sunlightIntensity = Finite 7, roomSize = Finite 25, windowOpen = False \<rparr>"
  have v: "idealTempBeforeRounding ?d = Finite (6234670734141031 / 281474976710656)"
    by (simp add: idealTempBeforeRounding_def Let_def num_gt_def num_sub_def Math_min_def
        literals steps_scenario_1)
  have f: "\<lfloor>(6234670734141031 / 281474976710656) :: rat\<rfloor> = 22"
    by (rule floor_unique) simp_all
  have g: "\<lfloor>(24 + 0.6 - 0.4 - 0.5 - 0.5 - 1.05) :: rat\<rfloor> = 22"
    by (rule floor_unique) simp_all
  have t: "js_trunc (6234670734141031 / 281474976710656) = 22" "js_trunc (24 + 0.6 - 0.4 - 0.5 - 0.5 - 1.05) = 22"
    using f g by (simp_all add: js_trunc_def)
  have "\<bar>(6234670734141031 / 281474976710656) - (24 + 0.6 - 0.4 - 0.5 - 0.5 - 1.05)\<bar> < (1::rat) / 10 ^ 14"
    by simp
  moreover have "roundIdealTemp (Finite (24 + 0.6 - 0.4 - 0.5 - 0.5 - 1.05)) = Finite 22"
    unfolding roundIdealTemp_Finite t g by simp
  moreover have "num_lt (js_rem (Finite (6234670734141031 / 281474976710656)) (to_double 1)) (to_double 0.5)"
    using t(1) by (simp add: literals)
  moreover have "Math_floor (Finite (6234670734141031 / 281474976710656)) = Finite 22"
    using f by simp
  moreover have "roundIdealTemp (Finite (6234670734141031 / 281474976710656)) = Finite 22"
    unfolding roundIdealTemp_Finite t f by simp
  ultimately show ?thesis
    unfolding Let_def calculateIdealTemperature_def v by (intro conjI refl)
qed

text \<open>The roundings that the steps of the two boundary states make.\<close>

lemma lit_24_49999: "to_double (2449999 / 100000) = Finite (6896134114661305 / 281474976710656)"
  by (rule to_double_eqI [where e = "4" and m = "6896134114661305" and c = "(- 48)"]) simp_all

lemma lit_28_9999: "to_double (289999 / 10000) = Finite (8162746177111353 / 281474976710656)"
  by (rule to_double_eqI [where e = "4" and m = "8162746177111353" and c = "(- 48)"]) simp_all

lemma round_at_half_1:
  "to_double (49 / 2) = Finite (49 / 2)"
  by (rule to_double_eqI [where e = "4" and m = "6896136929411072" and c = "(- 48)"]) simp_all

lemma round_below_half_1:
  "to_double (1407346736055609 / 281474976710656) = Finite (1407346736055609 / 281474976710656)"
  by (rule to_double_eqI [where e = "2" and m = "5629386944222436" and c = "(- 50)"]) simp_all

lemma round_below_half_2:
  "to_double (5070500988864899865452948740773 / 10141204801825835211973625643008) = Finite (4503509555377949 / 9007199254740992)"
  by (rule to_double_eqI [where e = "(- 2)" and m = "9007019110755898" and c = "(- 54)"]) simp_all

lemma round_below_half_3:
  "to_double (220676291669161757 / 9007199254740992) = Finite (6896134114661305 / 281474976710656)"
  by (rule to_double_eqI [where e = "4" and m = "6896134114661305" and c = "(- 48)"]) simp_all

lemma round_below_half_4:
  "to_double (6896134114661305 / 281474976710656) = Finite (6896134114661305 / 281474976710656)"
  by (rule to_double_eqI [where e = "4" and m = "6896134114661305" and c = "(- 48)"]) simp_all

lemmas steps_boundary =
  lit_24_49999 lit_28_9999 round_at_half_1 round_below_half_1 round_below_half_2
  round_below_half_3 round_below_half_4

lemma roundIdealTemp_half: "roundIdealTemp (Finite 24.5) = Finite 25"
proof -
  have "\<lfloor>24.5 :: rat\<rfloor> = 24" by (rule floor_unique) simp_all
  moreover have "\<lceil>24.5 :: rat\<rceil> = 25" by (rule ceiling_unique) simp_all
  ultimately show ?thesis
    unfolding roundIdealTemp_Finite by (simp add: js_trunc_def)
qed

lemma roundIdealTemp_below_half: "roundIdealTemp (to_double 24.49999) = Finite 24"
proof -
  have "\<lfloor>(6896134114661305 / 281474976710656) :: rat\<rfloor> = 24" by (rule floor_unique) simp_all
  then show ?thesis
    by (simp add: lit_24_49999 roundIdealTemp_Finite js_trunc_def)
qed

text \<open>
  C2. The result of \<open>calculateIdealTemperature\<close> is the floor of the value before
  rounding when its remainder by 1 is below one half, and its ceiling otherwise. A state
  whose value before rounding is exactly 24.5 gives 25 (the ceiling branch), and one whose
  value is 24.49999 (the double that this literal denotes) gives 24 (the floor branch).
\<close>

theorem rounding_rule:
  "calculateIdealTemperature d =
     (if num_lt (js_rem (idealTempBeforeRounding d) (to_double 1)) (to_double 0.5)
      then Math_floor (idealTempBeforeRounding d)
      else Math_ceil (idealTempBeforeRounding d))
   \<and> (idealTempBeforeRounding d = Finite 24.5 \<longrightarrow> calculateIdealTemperature d = Finite 25)
   \<and> (idealTempBeforeRounding d = to_double 24.49999 \<longrightarrow>
        calculateIdealTemperature d = Finite 24)"
proof (intro conjI impI)
  show "calculateIdealTemperature d =
     (if num_lt (js_rem (idealTempBeforeRounding d) (to_double 1)) (to_double 0.5)
      then Math_floor (idealTempBeforeRounding d)
      else Math_ceil (idealTempBeforeRounding d))"
    unfolding calculateIdealTemperature_def roundIdealTemp_def Let_def by (rule refl)
next
  assume "idealTempBeforeRounding d = Finite 24.5"
  then show "calculateIdealTemperature d = Finite 25"
    by (simp only: calculateIdealTemperature_def roundIdealTemp_half)
next
  assume "idealTempBeforeRounding d = to_double 24.49999"
  then show "calculateIdealTemperature d = Finite 24"
    by (simp only: calculateIdealTemperature_def roundIdealTemp_below_half)
qed

theorem rounding_rule_witness:
  "idealTempBeforeRounding
     \<lparr> indoorTemp = Finite 26, outdoorTemp = Finite 24, humidity = Finite 50,
       occupancy = Finite 0, weatherCondition = ''cloudy'', timeOfDay = ''evening'',
       sunlightIntensity = Finite 0, roomSize = Finite 25, windowOpen = False \<rparr> = Finite 24.5
   \<and> calculateIdealTemperature
     \<lparr> indoorTemp = Finite 26, outdoorTemp = Finite 24, humidity = Finite 50,
       occupancy = Finite 0, weatherCondition = ''cloudy'', timeOfDay = ''evening'',
       sunlightIntensity = Finite 0, roomSize = Finite 25, windowOpen = False \<rparr> = Finite 25
   \<and> idealTempBeforeRounding
     \<lparr> indoorTemp = Finite 26, outdoorTemp = to_double 28.9999, humidity = Finite 50,
       occupancy = Finite 0, weatherCondition = ''foggy'', timeOfDay = ''evening'',
       sunlightIntensity = Finite 0, roomSize = Finite 25, windowOpen = False \<rparr> = to_double 24.49999
   \<and> calculateIdealTemperature
     \<lparr> indoorTemp = Finite 26, outdoorTemp = to_double 28.9999, humidity = Finite 50,
       occupancy = Finite 0, weatherCondition = ''foggy'', timeOfDay = ''evening'',
       sunlightIntensity = Finite 0, roomSize = Finite 25, windowOpen = False \<rparr> = Finite 24"
proof -
  let ?a = "\<lparr> indoorTemp = Finite 26, outdoorTemp = Finite 24, humidity = Finite 50,
       occupancy = Finite 0, weatherCondition = ''cloudy'', timeOfDay = ''evening'',
       sunlightIntensity = Finite 0, roomSize = Finite 25, windowOpen = False \<rparr>"
  let ?b = "\<lparr> indoorTemp = Finite 26, outdoorTemp = to_double 28.9999, humidity = Finite 50,
       occupancy = Finite 0, weatherCondition = ''foggy'', timeOfDay = ''evening'',
       sunlightIntensity = Finite 0, roomSize = Finite 25, windowOpen = False \<rparr>"
  have a: "idealTempBeforeRounding ?a = Finite 24.5"
    by (simp add: idealTempBeforeRounding_def Let_def num_gt_def num_sub_def Math_min_def
        literals steps_boundary)
  have b: "idealTempBeforeRounding ?b = to_double 24.49999"
    by (simp add: idealTempBeforeRounding_def Let_def num_gt_def num_sub_def Math_min_def
        literals steps_boundary)
  from a b rounding_rule [of ?a] rounding_rule [of ?b] show ?thesis
    by blast
qed

text \<open>
  C10. Two states that agree on every field but \<open>indoorTemp\<close> get the same result when
  the window is closed; when it is open they get the same result as soon as the
  comparison of \<open>outdoorTemp\<close> with \<open>indoorTemp\<close> comes out the same in both. So
  \<open>indoorTemp\<close> reaches the result only through that comparison, which is made only with
  the window open.
\<close>

theorem indoorTemp_only_through_window:
  assumes "outdoorTemp d1 = outdoorTemp d2"
    and "humidity d1 = humidity d2"
    and "occupancy d1 = occupancy d2"
    and "weatherCondition d1 = weatherCondition d2"
    and "timeOfDay d1 = timeOfDay d2"
    and "sunlightIntensity d1 = sunlightIntensity d2"
    and "roomSize d1 = roomSize d2"
    and "windowOpen d1 = windowOpen d2"
    and "windowOpen d1 \<Longrightarrow>
           num_gt (outdoorTemp d1) (indoorTemp d1) = num_gt (outdoorTemp d2) (indoorTemp d2)"
  shows "calculateIdealTemperature d1 = calculateIdealTemperature d2"
proof -
  have "idealTempBeforeRounding d1 = idealTempBeforeRounding d2"
    using assms by (auto simp add: idealTempBeforeRounding_def Let_def)
  then show ?thesis
    by (simp add: calculateIdealTemperature_def)
qed

theorem indoorTemp_only_through_window_witness:
  "calculateIdealTemperature
     \<lparr> indoorTemp = Finite 26, outdoorTemp = Finite 30, humidity = Finite 60,
       occupancy = Finite 2, weatherCondition = ''sunny'', timeOfDay = ''afternoon'',
       sunlightIntensity = Finite 7, roomSize = Finite 25, windowOpen = False \<rparr>
   = calculateIdealTemperature
     \<lparr> indoorTemp = Finite 35, outdoorTemp = Finite 30, humidity = Finite 60,
       occupancy = Finite 2, weatherCondition = ''sunny'', timeOfDay = ''afternoon'',
       sunlightIntensity = Finite 7, roomSize = Finite 25, windowOpen = False \<rparr>
   \<and> calculateIdealTemperature
     \<lparr> indoorTemp = Finite 26, outdoorTemp = Finite 30, humidity = Finite 60,
       occupancy = Finite 2, weatherCondition = ''sunny'', timeOfDay = ''afternoon'',
       sunlightIntensity = Finite 7, roomSize = Finite 25, windowOpen = True \<rparr>
   = calculateIdealTemperature
     \<lparr> indoorTemp = Finite 20, outdoorTemp = Finite 30, humidity = Finite 60,
       occupancy = Finite 2, weatherCondition = ''sunny'', timeOfDay = ''afternoon'',
       sunlightIntensity = Finite 7, roomSize = Finite 25, windowOpen = True \<rparr>"
proof (intro conjI)
  show "calculateIdealTemperature
     \<lparr> indoorTemp = Finite 26, outdoorTemp = Finite 30, humidity = Finite 60,
       occupancy = Finite 2, weatherCondition = ''sunny'', timeOfDay = ''afternoon'',
       sunlightIntensity = Finite 7, roomSize = Finite 25, windowOpen = False \<rparr>
   = calculateIdealTemperature
     \<lparr> indoorTemp = Finite 35, outdoorTemp = Finite 30, humidity = Finite 60,
       occupancy = Finite 2, weatherCondition = ''sunny'', timeOfDay = ''afternoon'',
       sunlightIntensity = Finite 7, roomSize = Finite 25, windowOpen = False \<rparr>"
    by (rule indoorTemp_only_through_window) simp_all
  show "calculateIdealTemperature
     \<lparr> indoorTemp = Finite 26, outdoorTemp = Finite 30, humidity = Finite 60,
       occupancy = Finite 2, weatherCondition = ''sunny'', timeOfDay = ''afternoon'',
       sunlightIntensity = Finite 7, roomSize = Finite 25, windowOpen = True \<rparr>
   = calculateIdealTemperature
     \<lparr> indoorTemp = Finite 20, outdoorTemp = Finite 30, humidity = Finite 60,
       occupancy = Finite 2, weatherCondition = ''sunny'', timeOfDay = ''afternoon'',
       sunlightIntensity = Finite 7, roomSize = Finite 25, windowOpen = True \<rparr>"
    by (rule indoorTemp_only_through_window) (simp_all add: num_gt_def)
qed

subsection \<open>Finite inputs give a finite result\<close>

text \<open>
  Rounding keeps a magnitude of at most fifteen units, so sums, differences and scaled
  values of small magnitudes stay finite.
\<close>

lemma magnitude_to_double:
  assumes "\<bar>q\<bar> \<le> of_nat n * 2 ^ 1020" and "n \<le> 15"
  shows "magnitude n (to_double q)"
proof -
  have P: "of_int (int n * 2 ^ 49) * (2::rat) powi 971 = of_nat n * 2 ^ 1020"
    by simp
  have "of_nat n * (2::rat) ^ 1020 \<le> 15 * 2 ^ 1020"
    using assms(2) by simp
  also have "\<dots> < 2 ^ 1024" by simp
  finally have lt: "of_int (int n * 2 ^ 49) * (2::rat) powi 971 < 2 ^ 1024"
    by (simp only: P)
  have q: "\<bar>q\<bar> \<le> of_int (int n * 2 ^ 49) * 2 powi 971"
    using assms(1) by (simp only: P)
  have "\<exists>r. to_double q = Finite r \<and> \<bar>r\<bar> \<le> of_int (int n * 2 ^ 49) * 2 powi 971"
    using q refl lt by (rule to_double_grid_bound)
  then show ?thesis
    unfolding magnitude_def by (simp only: P)
qed

lemma magnitude_mono:
  assumes "magnitude a x" and "a \<le> b"
  shows "magnitude b x"
proof -
  from assms(1) obtain r where r: "x = Finite r" "\<bar>r\<bar> \<le> of_nat a * 2 ^ 1020"
    unfolding magnitude_def by blast
  have "(of_nat a :: rat) * 2 ^ 1020 \<le> of_nat b * 2 ^ 1020"
    using assms(2) by (simp add: mult_right_mono)
  with r show ?thesis unfolding magnitude_def by auto
qed

lemma magnitude_add:
  assumes "magnitude a x" and "magnitude b y" and n: "n = a + b" and "n \<le> 15"
  shows "magnitude n (num_add x y)"
proof -
  from assms(1) obtain r where r: "x = Finite r" "\<bar>r\<bar> \<le> of_nat a * 2 ^ 1020"
    unfolding magnitude_def by blast
  from assms(2) obtain s where s: "y = Finite s" "\<bar>s\<bar> \<le> of_nat b * 2 ^ 1020"
    unfolding magnitude_def by blast
  have "\<bar>r + s\<bar> \<le> \<bar>r\<bar> + \<bar>s\<bar>" by (rule abs_triangle_ineq)
  also have "\<dots> \<le> of_nat a * 2 ^ 1020 + of_nat b * 2 ^ 1020"
    using r(2) s(2) by (rule add_mono)
  also have "\<dots> = of_nat n * 2 ^ 1020"
    by (simp only: n of_nat_add distrib_right)
  finally have "magnitude n (to_double (r + s))"
    using assms(4) by (rule magnitude_to_double)
  then show ?thesis by (simp only: r(1) s(1) num_add.simps)
qed

lemma magnitude_sub:
  assumes "magnitude a x" and "magnitude b y" and "n = a + b" and "n \<le> 15"
  shows "magnitude n (num_sub x y)"
proof -
  from assms(2) obtain s where s: "y = Finite s" "\<bar>s\<bar> \<le> of_nat b * 2 ^ 1020"
    unfolding magnitude_def by blast
  then have "magnitude b (num_neg y)"
    unfolding magnitude_def by simp
  with assms(1) have "magnitude n (num_add x (num_neg y))"
    using assms(3) assms(4) by (rule magnitude_add)
  then show ?thesis by (simp only: num_sub_def)
qed

lemma magnitude_mul:
  assumes "\<bar>r\<bar> \<le> of_nat a * 2 ^ 1020" and "\<bar>k\<bar> * of_nat a \<le> of_nat n" and "n \<le> 15"
  shows "magnitude n (num_mul (Finite r) (Finite k))"
proof -
  have "\<bar>r * k\<bar> = \<bar>k\<bar> * \<bar>r\<bar>" by (simp add: abs_mult)
  also have "\<dots> \<le> \<bar>k\<bar> * (of_nat a * 2 ^ 1020)"
    using assms(1) by (simp add: mult_left_mono)
  also have "\<dots> = (\<bar>k\<bar> * of_nat a) * 2 ^ 1020"
    by (simp only: mult.assoc)
  also have "\<dots> \<le> of_nat n * 2 ^ 1020"
    using assms(2) by (simp only: mult_right_mono zero_le_power zero_le_numeral)
  finally have "magnitude n (to_double (r * k))"
    using assms(3) by (rule magnitude_to_double)
  then show ?thesis by (simp only: num_mul.simps)
qed

lemma magnitude_min:
  assumes "magnitude a x" and "magnitude a y"
  shows "magnitude a (Math_min x y)"
  using assms unfolding magnitude_def Math_min_def by auto

lemma magnitude_adjust:
  assumes "magnitude n x" and "magnitude 1 c" and m: "m = n + 1" and "m \<le> 15"
  shows "magnitude m (num_add x c)"
    and "magnitude m (num_sub x c)"
    and "magnitude m x"
proof -
  show "magnitude m (num_add x c)"
    using assms by (rule magnitude_add)
  show "magnitude m (num_sub x c)"
    using assms by (rule magnitude_sub)
  show "magnitude m x"
    using assms(1) by (rule magnitude_mono) (simp add: m)
qed

lemma magnitude_Finite:
  assumes "\<bar>r\<bar> \<le> 2 ^ 1020"
  shows "magnitude 1 (Finite r)"
  using assms by (simp add: magnitude_def)

lemma magnitude_literals:
  "magnitude 1 (to_double 24)" "magnitude 1 (to_double 1)" "magnitude 1 (to_double 0.5)"
  "magnitude 1 (to_double 2)"
proof -
  have "magnitude 1 (Finite 24)" "magnitude 1 (Finite 1)" "magnitude 1 (Finite (1 / 2))"
    "magnitude 1 (Finite 2)"
    by (rule magnitude_Finite, simp)+
  then show "magnitude 1 (to_double 24)" "magnitude 1 (to_double 1)"
    "magnitude 1 (to_double 0.5)" "magnitude 1 (to_double 2)"
    by (simp_all add: literals)
qed

lemma MAX_VALUE_units: "MAX_VALUE \<le> of_nat 16 * 2 ^ 1020"
  by (simp add: MAX_VALUE_def)

lemma finite_doubleE:
  assumes "finite_double n"
  obtains x where "n = Finite x" and "\<bar>x\<bar> \<le> MAX_VALUE"
proof (cases n)
  case (Finite x)
  with assms have "to_double x = Finite x" by (simp add: finite_double_def)
  then have "\<bar>x\<bar> \<le> MAX_VALUE" by (rule double_le_MAX_VALUE)
  with Finite show ?thesis by (rule that)
next
  case PosInfinity
  with assms show ?thesis by (simp add: finite_double_def)
next
  case NegInfinity
  with assms show ?thesis by (simp add: finite_double_def)
next
  case NaN
  with assms show ?thesis by (simp add: finite_double_def)
qed

lemma MAX_VALUE_double:
  "to_double MAX_VALUE = Finite MAX_VALUE" "to_double (- MAX_VALUE) = Finite (- MAX_VALUE)"
  unfolding MAX_VALUE_def
  by (rule to_double_eqI [where e = 1023 and m = "2 ^ 53 - 1" and c = 971], simp_all)
    (rule to_double_eqI [where e = 1023 and m = "- (2 ^ 53 - 1)" and c = 971], simp_all)

text \<open>
  C6. When \<open>outdoorTemp\<close>, \<open>occupancy\<close> and \<open>sunlightIntensity\<close> are finite doubles,
  \<open>calculateIdealTemperature\<close> returns a finite number: no step overflows, so no
  infinity and no \<open>NaN\<close> arises. The other three numeric fields are only compared, and the
  two tags only matched against the cases of a \<open>switch\<close> without \<open>default\<close>, so they can
  hold any value. The function is total and has no failure branch, as the source has no
  \<open>throw\<close> and reads no property that can be missing.
\<close>

theorem calculateIdealTemperature_finite:
  assumes "finite_double (outdoorTemp d)"
    and "finite_double (occupancy d)"
    and "finite_double (sunlightIntensity d)"
  shows "\<exists>r. calculateIdealTemperature d = Finite r"
proof -
  from assms(1) obtain ot where ot: "outdoorTemp d = Finite ot" "\<bar>ot\<bar> \<le> MAX_VALUE"
    by (rule finite_doubleE)
  from assms(2) obtain oc where oc: "occupancy d = Finite oc" "\<bar>oc\<bar> \<le> MAX_VALUE"
    by (rule finite_doubleE)
  from assms(3) obtain sl where sl: "sunlightIntensity d = Finite sl" "\<bar>sl\<bar> \<le> MAX_VALUE"
    by (rule finite_doubleE)
  note lit1 = magnitude_literals
  define t1 where "t1 = num_sub (outdoorTemp d) (to_double 24)"
  have "\<bar>ot - 24\<bar> < 2 ^ 1024 - 2 ^ 970"
  proof -
    have "\<bar>ot - 24\<bar> \<le> \<bar>ot\<bar> + 24" by simp
    also have "\<dots> \<le> MAX_VALUE + 24" using ot(2) by simp
    also have "\<dots> < 2 ^ 1024 - 2 ^ 970" by (simp add: MAX_VALUE_def)
    finally show ?thesis .
  qed
  then obtain r1 where "to_double (ot - 24) = Finite r1" and "\<bar>r1\<bar> \<le> MAX_VALUE"
    using to_double_near_MAX_VALUE by blast
  then have r1: "t1 = Finite r1" "\<bar>r1\<bar> \<le> of_nat 16 * 2 ^ 1020"
    using MAX_VALUE_units by (simp_all add: t1_def ot(1) num_sub_def literals)
  define outdoorFactor where "outdoorFactor = num_mul t1 (to_double 0.1)"
  have "magnitude 2 (num_mul (Finite r1) (Finite (3602879701896397 / 36028797018963968)))"
    using r1(2) by (rule magnitude_mul) simp_all
  then have "magnitude 2 outdoorFactor"
    by (simp add: outdoorFactor_def r1(1) literals)
  define i1 where "i1 = num_add (to_double 24) outdoorFactor"
  have i1: "magnitude 3 i1"
    unfolding i1_def using lit1(1) \<open>magnitude 2 outdoorFactor\<close>
    by (rule magnitude_add) simp_all
  define i2 where "i2 =
    (if num_gt (humidity d) (to_double 70) then num_sub i1 (to_double 1)
     else if num_lt (humidity d) (to_double 30) then num_add i1 (to_double 0.5)
     else i1)"
  have i2: "magnitude 4 i2"
    unfolding i2_def using magnitude_adjust [OF i1, of _ 4] lit1 by simp
  define occupancyAdjustment where
    "occupancyAdjustment = Math_min (num_mul (occupancy d) (to_double 0.2)) (to_double 2)"
  have "\<bar>oc\<bar> \<le> of_nat 16 * 2 ^ 1020"
    using oc(2) MAX_VALUE_units by linarith
  then have "magnitude 4 (num_mul (Finite oc) (Finite (3602879701896397 / 18014398509481984)))"
    by (rule magnitude_mul) simp_all
  then have "magnitude 4 (num_mul (Finite oc) (to_double 0.2))"
    by (simp add: literals)
  moreover have "magnitude 4 (to_double 2)"
    using lit1(4) by (rule magnitude_mono) simp
  ultimately have occ: "magnitude 4 occupancyAdjustment"
    unfolding occupancyAdjustment_def oc(1) by (rule magnitude_min)
  define i3 where "i3 = num_sub i2 occupancyAdjustment"
  have i3: "magnitude 8 i3"
    unfolding i3_def using i2 occ by (rule magnitude_sub) simp_all
  define i4 where "i4 =
    (if weatherCondition d = ''sunny'' then num_sub i3 (to_double 0.5)
     else if weatherCondition d = ''rainy'' \<or> weatherCondition d = ''cloudy''
       then num_add i3 (to_double 0.5)
     else if weatherCondition d = ''snowy'' \<or> weatherCondition d = ''stormy''
       then num_add i3 (to_double 1)
     else i3)"
  have i4: "magnitude 9 i4"
    unfolding i4_def using magnitude_adjust [OF i3, of _ 9] lit1 by simp
  define i5 where "i5 =
    (if timeOfDay d = ''morning'' then num_add i4 (to_double 0.5)
     else if timeOfDay d = ''afternoon'' then num_sub i4 (to_double 0.5)
     else if timeOfDay d = ''night'' then num_add i4 (to_double 1)
     else i4)"
  have i5: "magnitude 10 i5"
    unfolding i5_def using magnitude_adjust [OF i4, of _ 10] lit1 by simp
  define sunlightAdjustment where "sunlightAdjustment =
    num_mul (num_div (sunlightIntensity d) (to_double 10)) (to_double 1.5)"
  have "\<bar>sl\<bar> \<le> of_nat 16 * 2 ^ 1020"
    using sl(2) MAX_VALUE_units by linarith
  then have "magnitude 2 (num_mul (Finite sl) (Finite (1 / 10)))"
    by (rule magnitude_mul) simp_all
  then obtain r2 where r2: "to_double (sl / 10) = Finite r2" "\<bar>r2\<bar> \<le> of_nat 2 * 2 ^ 1020"
    unfolding magnitude_def by auto
  from r2(2) have "magnitude 3 (num_mul (Finite r2) (Finite (3 / 2)))"
    by (rule magnitude_mul) simp_all
  then have sun: "magnitude 3 sunlightAdjustment"
    by (simp add: sunlightAdjustment_def sl(1) literals r2(1))
  define i6 where "i6 = num_sub i5 sunlightAdjustment"
  have i6: "magnitude 13 i6"
    unfolding i6_def using i5 sun by (rule magnitude_sub) simp_all
  define i7 where "i7 =
    (if num_gt (roomSize d) (to_double 50) then num_add i6 (to_double 0.5) else i6)"
  have i7: "magnitude 14 i7"
    unfolding i7_def using magnitude_adjust [OF i6, of _ 14] lit1 by simp
  define i8 where "i8 =
    (if windowOpen d
     then (if num_gt (outdoorTemp d) (indoorTemp d) then num_sub i7 (to_double 1)
           else num_add i7 (to_double 0.5))
     else i7)"
  have "magnitude 15 i8"
    unfolding i8_def using magnitude_adjust [OF i7, of _ 15] lit1 by simp
  then obtain r where r: "i8 = Finite r"
    unfolding magnitude_def by blast
  have "idealTempBeforeRounding d = i8"
    by (simp only: idealTempBeforeRounding_def Let_def i8_def i7_def i6_def
        sunlightAdjustment_def i5_def i4_def i3_def occupancyAdjustment_def i2_def i1_def
        outdoorFactor_def t1_def)
  then show ?thesis
    by (simp add: calculateIdealTemperature_def r roundIdealTemp_Finite)
qed

theorem calculateIdealTemperature_finite_witness:
  "finite_double (Finite MAX_VALUE) \<and> finite_double (Finite (- MAX_VALUE))
   \<and> (\<exists>r. calculateIdealTemperature
          \<lparr> indoorTemp = NaN, outdoorTemp = Finite MAX_VALUE, humidity = PosInfinity,
            occupancy = Finite (- MAX_VALUE), weatherCondition = ''hail'',
            timeOfDay = ''dusk'', sunlightIntensity = Finite (- MAX_VALUE),
            roomSize = NegInfinity, windowOpen = True \<rparr> = Finite r)"
proof -
  have f: "finite_double (Finite MAX_VALUE)" "finite_double (Finite (- MAX_VALUE))"
    by (simp_all add: finite_double_def MAX_VALUE_double)
  then show ?thesis
    using calculateIdealTemperature_finite
      [of "\<lparr> indoorTemp = NaN, outdoorTemp = Finite MAX_VALUE, humidity = PosInfinity,
            occupancy = Finite (- MAX_VALUE), weatherCondition = ''hail'',
            timeOfDay = ''dusk'', sunlightIntensity = Finite (- MAX_VALUE),
            roomSize = NegInfinity, windowOpen = True \<rparr>"]
    by simp
qed

section \<open>Properties of the mapping to the request\<close>

lemma selectedWeatherOption_cases:
  "selectedWeatherOption tag =
    (if tag = ''sunny'' then Some \<lparr> opt_value = ''sunny'', opt_label = ''Sunny'' \<rparr>
     else if tag = ''partlyCloudy''
       then Some \<lparr> opt_value = ''partlyCloudy'', opt_label = ''Partly Cloudy'' \<rparr>
     else if tag = ''cloudy'' then Some \<lparr> opt_value = ''cloudy'', opt_label = ''Cloudy'' \<rparr>
     else if tag = ''rainy'' then Some \<lparr> opt_value = ''rainy'', opt_label = ''Rainy'' \<rparr>
     else if tag = ''stormy'' then Some \<lparr> opt_value = ''stormy'', opt_label = ''Stormy'' \<rparr>
     else if tag = ''snowy'' then Some \<lparr> opt_value = ''snowy'', opt_label = ''Snowy'' \<rparr>
     else if tag = ''windy'' then Some \<lparr> opt_value = ''windy'', opt_label = ''Windy'' \<rparr>
     else if tag = ''foggy'' then Some \<lparr> opt_value = ''foggy'', opt_label = ''Foggy'' \<rparr>
     else None)"
  unfolding selectedWeatherOption_def weatherOptions_def
  by (simp only: find.simps UiOption.simps) auto

text \<open>
  C3. The weather mapping is total. The label found in \<open>weatherOptions\<close> is used
  unchanged when it is one of Sunny, Cloudy, Rainy, Snowy, Foggy; Partly Cloudy and Windy
  become Cloudy; Stormy becomes Rainy; a tag with no option becomes Cloudy. The result is
  always one of the five categories. The lookup fails exactly for the tags outside the
  eight defined ones, and each of the eight is found and mapped by one of the branches.
\<close>

theorem weather_mapping_total:
  "weatherConditionApi tag =
     (case selectedWeatherOption tag of
        None \<Rightarrow> ''Cloudy''
      | Some opt \<Rightarrow>
          if opt_label opt \<in> {''Sunny'', ''Cloudy'', ''Rainy'', ''Snowy'', ''Foggy''}
            then opt_label opt
          else if opt_label opt \<in> {''Partly Cloudy'', ''Windy''} then ''Cloudy''
          else if opt_label opt = ''Stormy'' then ''Rainy''
          else ''Cloudy'')
   \<and> weatherConditionApi tag \<in> {''Sunny'', ''Cloudy'', ''Rainy'', ''Snowy'', ''Foggy''}
   \<and> (selectedWeatherOption tag = None) =
       (tag \<notin> {''sunny'', ''partlyCloudy'', ''cloudy'', ''rainy'', ''stormy'', ''snowy'',
                ''windy'', ''foggy''})
   \<and> map_option opt_label (selectedWeatherOption ''sunny'') = Some ''Sunny''
   \<and> weatherConditionApi ''sunny'' = ''Sunny''
   \<and> map_option opt_label (selectedWeatherOption ''partlyCloudy'') = Some ''Partly Cloudy''
   \<and> weatherConditionApi ''partlyCloudy'' = ''Cloudy''
   \<and> map_option opt_label (selectedWeatherOption ''cloudy'') = Some ''Cloudy''
   \<and> weatherConditionApi ''cloudy'' = ''Cloudy''
   \<and> map_option opt_label (selectedWeatherOption ''rainy'') = Some ''Rainy''
   \<and> weatherConditionApi ''rainy'' = ''Rainy''
   \<and> map_option opt_label (selectedWeatherOption ''stormy'') = Some ''Stormy''
   \<and> weatherConditionApi ''stormy'' = ''Rainy''
   \<and> map_option opt_label (selectedWeatherOption ''snowy'') = Some ''Snowy''
   \<and> weatherConditionApi ''snowy'' = ''Snowy''
   \<and> map_option opt_label (selectedWeatherOption ''windy'') = Some ''Windy''
   \<and> weatherConditionApi ''windy'' = ''Cloudy''
   \<and> map_option opt_label (selectedWeatherOption ''foggy'') = Some ''Foggy''
   \<and> weatherConditionApi ''foggy'' = ''Foggy''"
proof -
  have general: "weatherConditionApi tag =
     (case selectedWeatherOption tag of
        None \<Rightarrow> ''Cloudy''
      | Some opt \<Rightarrow>
          if opt_label opt \<in> {''Sunny'', ''Cloudy'', ''Rainy'', ''Snowy'', ''Foggy''}
            then opt_label opt
          else if opt_label opt \<in> {''Partly Cloudy'', ''Windy''} then ''Cloudy''
          else if opt_label opt = ''Stormy'' then ''Rainy''
          else ''Cloudy'')"
    by (simp add: weatherConditionApi_def Let_def split: option.splits)
  have range: "weatherConditionApi tag \<in> {''Sunny'', ''Cloudy'', ''Rainy'', ''Snowy'', ''Foggy''}"
    by (simp add: weatherConditionApi_def Let_def split: option.splits)
  have miss: "(selectedWeatherOption tag = None) =
       (tag \<notin> {''sunny'', ''partlyCloudy'', ''cloudy'', ''rainy'', ''stormy'', ''snowy'',
                ''windy'', ''foggy''})"
    by (simp add: selectedWeatherOption_cases)
  have tags: "map_option opt_label (selectedWeatherOption ''sunny'') = Some ''Sunny''"
    "weatherConditionApi ''sunny'' = ''Sunny''"
    "map_option opt_label (selectedWeatherOption ''partlyCloudy'') = Some ''Partly Cloudy''"
    "weatherConditionApi ''partlyCloudy'' = ''Cloudy''"
    "map_option opt_label (selectedWeatherOption ''cloudy'') = Some ''Cloudy''"
    "weatherConditionApi ''cloudy'' = ''Cloudy''"
    "map_option opt_label (selectedWeatherOption ''rainy'') = Some ''Rainy''"
    "weatherConditionApi ''rainy'' = ''Rainy''"
    "map_option opt_label (selectedWeatherOption ''stormy'') = Some ''Stormy''"
    "weatherConditionApi ''stormy'' = ''Rainy''"
    "map_option opt_label (selectedWeatherOption ''snowy'') = Some ''Snowy''"
    "weatherConditionApi ''snowy'' = ''Snowy''"
    "map_option opt_label (selectedWeatherOption ''windy'') = Some ''Windy''"
    "weatherConditionApi ''windy'' = ''Cloudy''"
    "map_option opt_label (selectedWeatherOption ''foggy'') = Some ''Foggy''"
    "weatherConditionApi ''foggy'' = ''Foggy''"
    by (simp_all add: weatherConditionApi_def selectedWeatherOption_cases)
  from general range miss tags show ?thesis
    by (intro conjI)
qed

lemma js_split_first: "js_index0 (js_split sep s) = Some (takeWhile (\<lambda>c. c \<noteq> sep) s)"
  by (induction s) (auto simp add: js_index0_def split: list.splits)

lemma selectedTimeOption_cases:
  "selectedTimeOption tag =
    (if tag = ''morning''
       then Some \<lparr> opt_value = ''morning'', opt_label = ''Morning (6AM-12PM)'' \<rparr>
     else if tag = ''afternoon''
       then Some \<lparr> opt_value = ''afternoon'', opt_label = ''Afternoon (12PM-5PM)'' \<rparr>
     else if tag = ''evening''
       then Some \<lparr> opt_value = ''evening'', opt_label = ''Evening (5PM-10PM)'' \<rparr>
     else if tag = ''night''
       then Some \<lparr> opt_value = ''night'', opt_label = ''Night (10PM-6AM)'' \<rparr>
     else None)"
  unfolding selectedTimeOption_def timeOptions_def
  by (simp only: find.simps UiOption.simps) auto

text \<open>
  C8. The time-of-day mapping takes the first word of the label found in \<open>timeOptions\<close>,
  that is the label up to its first space; the word is the result when it is one of
  Morning, Afternoon, Evening, Night, and the result is Afternoon otherwise and when the
  tag has no option. The lookup fails exactly for the tags outside the four defined ones,
  and each of the four is mapped to its own category.
\<close>

theorem time_mapping_total:
  "timeOfDayApi tag =
     (case selectedTimeOption tag of
        None \<Rightarrow> ''Afternoon''
      | Some opt \<Rightarrow>
          if takeWhile (\<lambda>c. c \<noteq> CHR '' '') (opt_label opt)
               \<in> {''Morning'', ''Afternoon'', ''Evening'', ''Night''}
            then takeWhile (\<lambda>c. c \<noteq> CHR '' '') (opt_label opt)
          else ''Afternoon'')
   \<and> timeOfDayApi tag \<in> {''Morning'', ''Afternoon'', ''Evening'', ''Night''}
   \<and> (selectedTimeOption tag = None) =
       (tag \<notin> {''morning'', ''afternoon'', ''evening'', ''night''})
   \<and> map_option opt_label (selectedTimeOption ''morning'') = Some ''Morning (6AM-12PM)''
   \<and> timeOfDayApi ''morning'' = ''Morning''
   \<and> map_option opt_label (selectedTimeOption ''afternoon'') = Some ''Afternoon (12PM-5PM)''
   \<and> timeOfDayApi ''afternoon'' = ''Afternoon''
   \<and> map_option opt_label (selectedTimeOption ''evening'') = Some ''Evening (5PM-10PM)''
   \<and> timeOfDayApi ''evening'' = ''Evening''
   \<and> map_option opt_label (selectedTimeOption ''night'') = Some ''Night (10PM-6AM)''
   \<and> timeOfDayApi ''night'' = ''Night''"
proof -
  have general: "timeOfDayApi tag =
     (case selectedTimeOption tag of
        None \<Rightarrow> ''Afternoon''
      | Some opt \<Rightarrow>
          if takeWhile (\<lambda>c. c \<noteq> CHR '' '') (opt_label opt)
               \<in> {''Morning'', ''Afternoon'', ''Evening'', ''Night''}
            then takeWhile (\<lambda>c. c \<noteq> CHR '' '') (opt_label opt)
          else ''Afternoon'')"
    by (simp add: timeOfDayApi_def js_split_first Let_def split: option.splits)
  have range: "timeOfDayApi tag \<in> {''Morning'', ''Afternoon'', ''Evening'', ''Night''}"
    unfolding general by (simp split: option.splits)
  have miss: "(selectedTimeOption tag = None) =
       (tag \<notin> {''morning'', ''afternoon'', ''evening'', ''night''})"
    by (simp add: selectedTimeOption_cases)
  have tags: "map_option opt_label (selectedTimeOption ''morning'') = Some ''Morning (6AM-12PM)''"
    "timeOfDayApi ''morning'' = ''Morning''"
    "map_option opt_label (selectedTimeOption ''afternoon'') = Some ''Afternoon (12PM-5PM)''"
    "timeOfDayApi ''afternoon'' = ''Afternoon''"
    "map_option opt_label (selectedTimeOption ''evening'') = Some ''Evening (5PM-10PM)''"
    "timeOfDayApi ''evening'' = ''Evening''"
    "map_option opt_label (selectedTimeOption ''night'') = Some ''Night (10PM-6AM)''"
    "timeOfDayApi ''night'' = ''Night''"
    by (simp_all add: timeOfDayApi_def js_index0_def Let_def selectedTimeOption_cases)
  from general range miss tags show ?thesis
    by (intro conjI)
qed

text \<open>The two boundary sizes that are not doubles themselves.\<close>

lemma lit_14_999: "to_double (14999 / 1000) = Finite (8443686351366259 / 562949953421312)"
  by (rule to_double_eqI [where e = "3" and m = "8443686351366259" and c = "(- 49)"]) simp_all

lemma lit_29_999: "to_double (29999 / 1000) = Finite (8443967826342969 / 281474976710656)"
  by (rule to_double_eqI [where e = "4" and m = "8443967826342969" and c = "(- 48)"]) simp_all

text \<open>
  C7. The room-size bucket of a finite size is Small below 15, Medium from 15 up to but
  not including 30, and Large from 30 on; so 14.999 is Small, 15 and 29.999 are Medium,
  and 30 is Large.
\<close>

theorem roomSize_buckets:
  "(area < 15 \<longrightarrow> roomSizeApi (Finite area) = ''Small'')
   \<and> (15 \<le> area \<and> area < 30 \<longrightarrow> roomSizeApi (Finite area) = ''Medium'')
   \<and> (30 \<le> area \<longrightarrow> roomSizeApi (Finite area) = ''Large'')
   \<and> roomSizeApi (to_double 14.999) = ''Small''
   \<and> roomSizeApi (to_double 15) = ''Medium''
   \<and> roomSizeApi (to_double 29.999) = ''Medium''
   \<and> roomSizeApi (to_double 30) = ''Large''"
  by (simp add: roomSizeApi_def literals lit_14_999 lit_29_999)

theorem roomSize_buckets_witness:
  "(10::rat) < 15 \<and> roomSizeApi (Finite 10) = ''Small''
   \<and> (15::rat) \<le> 20 \<and> (20::rat) < 30 \<and> roomSizeApi (Finite 20) = ''Medium''
   \<and> (30::rat) \<le> 45 \<and> roomSizeApi (Finite 45) = ''Large''"
  using roomSize_buckets [of 10] roomSize_buckets [of 20] roomSize_buckets [of 45]
  by simp

section \<open>Properties of the remote client and of the predict action\<close>

lemma show_nat_400: "show_nat 400 = ''400''"
  by code_simp

lemma show_nat_503: "show_nat 503 = ''503''"
  by code_simp

lemma run_effects_handlePredict:
  "run_effects s (handlePredict ToString fetch env) =
    (case getIdealTemperaturePrediction ToString fetch (apiInput env) of
       Inr response \<Rightarrow>
         (case js_get response ''predicted_ideal_temperature'' of
            Inr t \<Rightarrow> s\<lparr>isLoading := False, error := None, predictedTemperature := Some t\<rparr>
          | Inl m \<Rightarrow>
              s\<lparr>isLoading := False,
                error := Some (if m \<noteq> [] then m
                               else ''Failed to get prediction. Please try again.''),
                predictedTemperature := None\<rparr>)
     | Inl m \<Rightarrow>
         s\<lparr>isLoading := False,
           error := Some (if m \<noteq> [] then m
                          else ''Failed to get prediction. Please try again.''),
           predictedTemperature := None\<rparr>)"
  by (simp add: run_effects_def handlePredict_def handlePredict_try_def handlePredict_catch_def
      split: sum.splits)

text \<open>
  C5. When the response has a non-success status and a structured body whose \<open>error\<close>
  is a message (a string that is not empty), \<open>getIdealTemperaturePrediction\<close> fails with
  exactly that message, and \<open>handlePredict\<close> stores it as the error shown. When the body
  has no \<open>error\<close>, or an empty one, which \<open>||\<close> takes as absent, the failure is the
  generic message that ends with the status code.
  A status 400 with the body \<open>{error: "invalid payload"}\<close> gives \<open>invalid payload\<close>, and a
  status 400 with the body \<open>{}\<close> gives \<open>API request failed with status 400\<close>.
\<close>

theorem server_error_verbatim:
  assumes "fetch (predictRequest (apiInput env)) = Inr response"
    and "\<not> ok response"
    and "body response = Parsed (JObject props)"
  shows "(map_of props ''error'' = Some (JString m) \<and> m \<noteq> [] \<longrightarrow>
            getIdealTemperaturePrediction ToString fetch (apiInput env) = Inl m
          \<and> error (run_effects s (handlePredict ToString fetch env)) = Some m)
       \<and> (map_of props ''error'' = None \<longrightarrow>
            getIdealTemperaturePrediction ToString fetch (apiInput env)
              = Inl (''API request failed with status '' @ show_nat (status response)))
       \<and> (map_of props ''error'' = Some (JString []) \<longrightarrow>
            getIdealTemperaturePrediction ToString fetch (apiInput env)
              = Inl (''API request failed with status '' @ show_nat (status response)))
       \<and> getIdealTemperaturePrediction ToString
            (server_replies
               \<lparr> status = 400,
                 body = Parsed (JObject [(''error'', JString ''invalid payload'')]) \<rparr>)
            (apiInput env) = Inl ''invalid payload''
       \<and> error (run_effects s (handlePredict ToString
            (server_replies
               \<lparr> status = 400,
                 body = Parsed (JObject [(''error'', JString ''invalid payload'')]) \<rparr>) env))
           = Some ''invalid payload''
       \<and> getIdealTemperaturePrediction ToString
            (server_replies \<lparr> status = 400, body = Parsed (JObject []) \<rparr>) (apiInput env)
           = Inl ''API request failed with status 400''"
proof (intro conjI impI)
  assume e: "map_of props ''error'' = Some (JString m) \<and> m \<noteq> []"
  with assms show g: "getIdealTemperaturePrediction ToString fetch (apiInput env) = Inl m"
    by (simp add: getIdealTemperaturePrediction_def predictionTry_def response_json_def
        js_get_def truthy_def new_Error_def)
  from e show "error (run_effects s (handlePredict ToString fetch env)) = Some m"
    by (simp add: run_effects_handlePredict g)
next
  assume "map_of props ''error'' = None"
  with assms show "getIdealTemperaturePrediction ToString fetch (apiInput env)
      = Inl (''API request failed with status '' @ show_nat (status response))"
    by (simp add: getIdealTemperaturePrediction_def predictionTry_def response_json_def
        js_get_def truthy_def new_Error_def)
next
  assume "map_of props ''error'' = Some (JString [])"
  with assms show "getIdealTemperaturePrediction ToString fetch (apiInput env)
      = Inl (''API request failed with status '' @ show_nat (status response))"
    by (simp add: getIdealTemperaturePrediction_def predictionTry_def response_json_def
        js_get_def truthy_def new_Error_def)
next
  show g: "getIdealTemperaturePrediction ToString
            (server_replies
               \<lparr> status = 400,
                 body = Parsed (JObject [(''error'', JString ''invalid payload'')]) \<rparr>)
            (apiInput env) = Inl ''invalid payload''"
    by (simp add: getIdealTemperaturePrediction_def predictionTry_def response_json_def
        js_get_def truthy_def new_Error_def server_replies_def ok_def)
  show "error (run_effects s (handlePredict ToString
            (server_replies
               \<lparr> status = 400,
                 body = Parsed (JObject [(''error'', JString ''invalid payload'')]) \<rparr>) env))
           = Some ''invalid payload''"
    by (simp add: run_effects_handlePredict g)
next
  show "getIdealTemperaturePrediction ToString
            (server_replies \<lparr> status = 400, body = Parsed (JObject []) \<rparr>) (apiInput env)
           = Inl ''API request failed with status 400''"
    by (simp add: getIdealTemperaturePrediction_def predictionTry_def response_json_def
        js_get_def truthy_def new_Error_def server_replies_def ok_def show_nat_400)
qed

theorem server_error_verbatim_witness:
  "getIdealTemperaturePrediction (\<lambda>v. ''[object Object]'')
     (server_replies
        \<lparr> status = 503,
          body = Parsed (JObject [(''error'', JString ''model not loaded''),
                                  (''status'', JString ''error'')]) \<rparr>)
     (apiInput initialEnvironmentalData) = Inl ''model not loaded''
   \<and> error (run_effects \<lparr> isLoading = False, error = None, predictedTemperature = None \<rparr>
        (handlePredict (\<lambda>v. ''[object Object]'')
           (server_replies
              \<lparr> status = 503,
                body = Parsed (JObject [(''error'', JString ''model not loaded''),
                                        (''status'', JString ''error'')]) \<rparr>)
           initialEnvironmentalData)) = Some ''model not loaded''
   \<and> getIdealTemperaturePrediction (\<lambda>v. ''[object Object]'')
     (server_replies
        \<lparr> status = 503, body = Parsed (JObject [(''status'', JString ''error'')]) \<rparr>)
     (apiInput initialEnvironmentalData) = Inl ''API request failed with status 503''
   \<and> getIdealTemperaturePrediction (\<lambda>v. ''[object Object]'')
     (server_replies \<lparr> status = 503, body = Parsed (JObject [(''error'', JString [])]) \<rparr>)
     (apiInput initialEnvironmentalData) = Inl ''API request failed with status 503''"
proof -
  let ?r1 = "\<lparr> status = 503,
          body = Parsed (JObject [(''error'', JString ''model not loaded''),
                                  (''status'', JString ''error'')]) \<rparr>"
  let ?r2 = "\<lparr> status = 503, body = Parsed (JObject [(''status'', JString ''error'')]) \<rparr>"
  let ?r3 = "\<lparr> status = 503, body = Parsed (JObject [(''error'', JString [])]) \<rparr>"
  have 1: "server_replies ?r1 (predictRequest (apiInput initialEnvironmentalData)) = Inr ?r1"
    and 2: "server_replies ?r2 (predictRequest (apiInput initialEnvironmentalData)) = Inr ?r2"
    and 3: "server_replies ?r3 (predictRequest (apiInput initialEnvironmentalData)) = Inr ?r3"
    by (simp_all add: server_replies_def)
  have nok: "\<not> ok ?r1" "\<not> ok ?r2" "\<not> ok ?r3"
    by (simp_all add: ok_def)
  have b: "body ?r1 = Parsed (JObject [(''error'', JString ''model not loaded''),
                                       (''status'', JString ''error'')])"
    "body ?r2 = Parsed (JObject [(''status'', JString ''error'')])"
    "body ?r3 = Parsed (JObject [(''error'', JString [])])"
    by simp_all
  from server_error_verbatim
      [where fetch = "server_replies ?r1" and env = initialEnvironmentalData
         and m = "''model not loaded''" and ToString = "\<lambda>v. ''[object Object]''"
         and s = "\<lparr> isLoading = False, error = None, predictedTemperature = None \<rparr>",
       OF 1 nok(1) b(1)]
    server_error_verbatim
      [where fetch = "server_replies ?r2" and env = initialEnvironmentalData
         and ToString = "\<lambda>v. ''[object Object]''",
       OF 2 nok(2) b(2)]
    server_error_verbatim
      [where fetch = "server_replies ?r3" and env = initialEnvironmentalData
         and ToString = "\<lambda>v. ''[object Object]''",
       OF 3 nok(3) b(3)]
  show ?thesis
    by (simp add: show_nat_503)
qed

text \<open>
  C4. When the response has a success status and a body that is not well-formed, the
  failure of \<open>response.json()\<close> is an \<open>Error\<close> and is thrown again as it is:
  \<open>getIdealTemperaturePrediction\<close> fails with the parser's message, not with the generic
  unknown-error message. \<open>handlePredict\<close> catches the failure: it ends with the busy flag
  cleared, no prediction, and the parser's message as the error shown (its own fallback
  text when that message is empty). The generic unknown-error message is what the client
  fails with when the value thrown is not an \<open>Error\<close>.
\<close>

theorem malformed_body_rethrown:
  assumes "fetch (predictRequest (apiInput env)) = Inr response"
    and "ok response"
    and "body response = Malformed m"
  shows "getIdealTemperaturePrediction ToString fetch (apiInput env) = Inl m
       \<and> run_effects s (handlePredict ToString fetch env)
          = s\<lparr>isLoading := False,
              error := Some (if m \<noteq> [] then m
                             else ''Failed to get prediction. Please try again.''),
              predictedTemperature := None\<rparr>
       \<and> (predictionTry ToString fetch' data = Inl NotAnError \<longrightarrow>
            getIdealTemperaturePrediction ToString fetch' data
              = Inl ''An unknown error occurred while fetching prediction.'')"
proof -
  from assms have g: "getIdealTemperaturePrediction ToString fetch (apiInput env) = Inl m"
    by (simp add: getIdealTemperaturePrediction_def predictionTry_def response_json_def)
  then show ?thesis
    by (simp add: run_effects_handlePredict getIdealTemperaturePrediction_def)
qed

theorem malformed_body_rethrown_witness:
  "getIdealTemperaturePrediction (\<lambda>v. ''[object Object]'')
     (server_replies
        \<lparr> status = 200, body = Malformed ''Unexpected token < in JSON at position 0'' \<rparr>)
     (apiInput initialEnvironmentalData)
   = Inl ''Unexpected token < in JSON at position 0''
   \<and> run_effects \<lparr> isLoading = False, error = None, predictedTemperature = None \<rparr>
       (handlePredict (\<lambda>v. ''[object Object]'')
          (server_replies
             \<lparr> status = 200, body = Malformed ''Unexpected token < in JSON at position 0'' \<rparr>)
          initialEnvironmentalData)
     = \<lparr> isLoading = False, error = Some ''Unexpected token < in JSON at position 0'',
         predictedTemperature = None \<rparr>
   \<and> getIdealTemperaturePrediction (\<lambda>v. ''[object Object]'') (\<lambda>request. Inl NotAnError)
       (apiInput initialEnvironmentalData)
     = Inl ''An unknown error occurred while fetching prediction.''"
proof -
  let ?r = "\<lparr> status = 200, body = Malformed ''Unexpected token < in JSON at position 0'' \<rparr>"
  have 1: "server_replies ?r (predictRequest (apiInput initialEnvironmentalData)) = Inr ?r"
    by (simp add: server_replies_def)
  have 2: "ok ?r"
    by (simp add: ok_def)
  have 3: "body ?r = Malformed ''Unexpected token < in JSON at position 0''"
    by simp
  have 4: "predictionTry (\<lambda>v. ''[object Object]'') (\<lambda>request. Inl NotAnError)
             (apiInput initialEnvironmentalData) = Inl NotAnError"
    by (simp add: predictionTry_def)
  from malformed_body_rethrown
      [where fetch = "server_replies ?r" and env = initialEnvironmentalData
         and ToString = "\<lambda>v. ''[object Object]''"
         and s = "\<lparr> isLoading = False, error = None, predictedTemperature = None \<rparr>"
         and fetch' = "\<lambda>request. Inl NotAnError"
         and data = "apiInput initialEnvironmentalData",
       OF 1 2 3] 4
  show ?thesis
    by simp
qed

theorem malformed_body_not_generic:
  "getIdealTemperaturePrediction (\<lambda>v. ''[object Object]'')
     (server_replies
        \<lparr> status = 200, body = Malformed ''Unexpected token < in JSON at position 0'' \<rparr>)
     (apiInput initialEnvironmentalData)
   = Inl ''Unexpected token < in JSON at position 0''
   \<and> getIdealTemperaturePrediction (\<lambda>v. ''[object Object]'')
     (server_replies
        \<lparr> status = 200, body = Malformed ''Unexpected token < in JSON at position 0'' \<rparr>)
     (apiInput initialEnvironmentalData)
   \<noteq> Inl ''An unknown error occurred while fetching prediction.''"
  by (simp add: getIdealTemperaturePrediction_def predictionTry_def response_json_def
        server_replies_def ok_def)

text \<open>
  C9. Every run of \<open>handlePredict\<close> begins by setting the busy flag, clearing the error
  and the prediction, and only then issues the remote call, so the flag is set when the
  call is issued. The flag is written exactly twice, true and then false; the remote call
  is made once; the last effect clears the flag. Whatever the remote call does (a
  prediction, a failure, a response without the expected shape), the flag is clear in the
  state that the run leaves.
\<close>

theorem busy_flag_released:
  "take 4 (handlePredict ToString fetch env)
     = [SetIsLoading True, SetError None, SetPredictedTemperature None,
        RemoteCall (apiInput env)]
   \<and> isLoading (run_effects s (take 3 (handlePredict ToString fetch env)))
   \<and> [b. SetIsLoading b \<leftarrow> handlePredict ToString fetch env] = [True, False]
   \<and> [x. RemoteCall x \<leftarrow> handlePredict ToString fetch env] = [apiInput env]
   \<and> last (handlePredict ToString fetch env) = SetIsLoading False
   \<and> \<not> isLoading (run_effects s (handlePredict ToString fetch env))"
  by (simp add: handlePredict_def handlePredict_try_def handlePredict_catch_def run_effects_def
      split: sum.splits)


end
